theory Spec2Isabelle
  imports Complex_Main "HOL-Library.Word"
begin

section \<open>Platform values\<close>

text \<open>
  The application (\<open>App.jsx\<close>, a React component) keeps a peer session in React state
  and refs, and calls three platform services: Web Crypto (\<open>crypto.subtle\<close>), WebRTC
  (\<open>RTCPeerConnection\<close>, its data channel) and Firestore (\<open>addDoc\<close>, \<open>deleteDoc\<close>,
  \<open>onSnapshot\<close>). The component is modelled by explicit state passing: every handler
  is a function from the session state to the session state. Each handler runs to
  completion; the interleaving of two handlers at an \<open>await\<close> is outside the model.
  JavaScript numbers are modelled by naturals (sizes, offsets) and reals (progress).

  The repository holds the component twice, in a longer and a shorter layout with
  the same handlers. The model follows the longer one, which differs in the status
  texts, in the \<open>try\<close>/\<open>catch\<close> around the body of \<open>reader.onload\<close> and in the test
  of \<open>userId\<close> at the start of \<open>connectToPeer\<close>.
\<close>

type_synonym byte = "8 word"
type_synonym bytes = "byte list"

text \<open>A \<open>CryptoKey\<close> with the attributes Web Crypto attaches to it.\<close>

datatype key_usage = encrypt_u | decrypt_u | deriveBits_u | deriveKey_u | sign_u | verify_u

datatype key_algorithm = ECDH_P256 | AES_GCM

datatype key_type = public_k | private_k | secret_k

record 'm crypto_key =
  ktype :: key_type
  kalgorithm :: key_algorithm
  kextractable :: bool
  kusages :: "key_usage list"
  kmaterial :: 'm

record ('sk, 'pk) key_pair =
  privateKey :: "'sk crypto_key"
  publicKey :: "'pk crypto_key"

subsection \<open>Messages, connection objects and files\<close>

text \<open>
  A signaling document as \<open>change.doc.data()\<close> returns it: every field may be absent
  (\<open>undefined\<close> is \<open>None\<close>). A snapshot delivers document changes, each with its type
  and the id of the document.
\<close>

record 'j sig_msg =
  m_type :: "string option"
  m_senderId :: "string option"
  m_targetId :: "string option"
  m_publicKey :: "'j option"
  m_offer :: "string option"
  m_answer :: "string option"
  m_candidate :: "string option"

datatype change_type = added | modified | removed

record 'j doc_change =
  ch_type :: change_type
  ch_id :: string
  ch_data :: "'j sig_msg"

text \<open>
  The \<open>RTCPeerConnection\<close> as far as the handlers touch it: the peer id that
  \<open>setupPeerConnection\<close> closed over, both descriptions and the candidates added. The
  data channel has its label and its \<open>readyState\<close>.
\<close>

record peer_conn =
  pc_peerId :: "string option"
  localDescription :: "string option"
  remoteDescription :: "string option"
  iceCandidates :: "string option list"

record data_channel =
  dc_label :: string
  readyState :: string

text \<open>
  What travels over the data channel: a text message, given by what \<open>JSON.parse\<close>
  makes of it (\<open>None\<close> when it is not a JSON object, the case the handler's
  \<open>catch\<close> swallows), or a binary message. The fields of the object have the types
  the sender gives them. \<open>JSON.stringify\<close> on the sending side and \<open>JSON.parse\<close>
  on the receiving side are taken to be inverse.
\<close>

record control_msg =
  c_type :: string
  fileName :: string
  fileSize :: nat
  fileType :: string
  fileHash :: string

datatype chan_msg = TextMsg "control_msg option" | BinaryMsg bytes

record blob =
  blob_bytes :: bytes
  blob_type :: string

record received_file =
  rf_name :: string
  rf_blob :: blob

record file_t =
  f_name :: string
  f_type :: string
  f_content :: bytes

record transfer_record =
  tr_senderId :: string
  tr_recipientId :: "string option"
  tr_fileName :: string
  tr_fileHash :: string
  tr_timestamp :: string

text \<open>
  What the platform computes and the repository does not define is a parameter: the
  elliptic-curve arithmetic and AES-GCM of Web Crypto, SHA-256, the JWK encoding, the
  WebRTC negotiation and whether Firestore accepts a write. A result \<open>None\<close> (or
  \<open>False\<close>) is the rejected promise that the calling handler sees as an exception.
  \<^item> \<open>publicOf\<close>: the public half of a generated private key;
  \<^item> \<open>exportJwk\<close>, \<open>importJwk\<close>: the JWK form of a public key;
  \<^item> \<open>ecdh\<close>: \<open>deriveBits({name: 'ECDH', public}, private, 256)\<close>;
  \<^item> \<open>aesEncrypt\<close>, \<open>aesDecrypt\<close>: AES-GCM under raw key bytes and an IV;
  \<^item> \<open>sha256\<close>: \<open>digest('SHA-256', _)\<close>;
  \<^item> \<open>createOffer\<close>, \<open>createAnswer\<close>, \<open>acceptsLocal\<close>, \<open>acceptsRemote\<close>,
    \<open>acceptsCandidate\<close>: the negotiation of the peer connection;
  \<^item> \<open>firestoreAccepts\<close>: whether \<open>addDoc\<close> on a collection path succeeds;
  \<^item> \<open>firestoreDeletes\<close>: whether \<open>deleteDoc\<close> on a document (collection path and
    document id) succeeds;
  \<^item> \<open>APP_ID\<close>: the build-time constant of the same name;
  \<^item> \<open>toFixed2\<close>: \<open>(fileSize / 1024 / 1024).toFixed(2)\<close>, used in a status text;
  \<^item> \<open>clock\<close>: \<open>new Date().toISOString()\<close>.
\<close>

record ('sk, 'pk, 'j) platform =
  publicOf :: "'sk \<Rightarrow> 'pk"
  exportJwk :: "'pk \<Rightarrow> 'j"
  importJwk :: "'j \<Rightarrow> 'pk option"
  ecdh :: "'sk \<Rightarrow> 'pk \<Rightarrow> bytes option"
  aesEncrypt :: "bytes \<Rightarrow> bytes \<Rightarrow> bytes \<Rightarrow> bytes option"
  aesDecrypt :: "bytes \<Rightarrow> bytes \<Rightarrow> bytes \<Rightarrow> bytes option"
  sha256 :: "bytes \<Rightarrow> bytes"
  createOffer :: "peer_conn \<Rightarrow> string option"
  createAnswer :: "peer_conn \<Rightarrow> string option"
  acceptsLocal :: "peer_conn \<Rightarrow> string \<Rightarrow> bool"
  acceptsRemote :: "peer_conn \<Rightarrow> string \<Rightarrow> bool"
  acceptsCandidate :: "peer_conn \<Rightarrow> string option \<Rightarrow> bool"
  firestoreAccepts :: "string \<Rightarrow> bool"
  firestoreDeletes :: "string \<Rightarrow> string \<Rightarrow> bool"
  APP_ID :: string
  toFixed2 :: "nat \<Rightarrow> string"
  clock :: string

subsection \<open>Web Crypto calls as the source makes them\<close>

text \<open>
  \<open>generateKey(algorithm, extractable, usages)\<close> for an ECDH pair: the private key
  takes the \<open>extractable\<close> flag of the call and, of the requested usages, those an ECDH
  private key can have; the public key is always extractable and has no usage. The
  fresh private material is the argument \<open>fresh\<close>.
\<close>

definition generateKey ::
  "('sk, 'pk, 'j) platform \<Rightarrow> key_algorithm \<Rightarrow> bool \<Rightarrow> key_usage list \<Rightarrow> 'sk \<Rightarrow> ('sk, 'pk) key_pair"
where
  "generateKey P alg extractable usages fresh =
     \<lparr> privateKey =
         \<lparr> ktype = private_k, kalgorithm = alg, kextractable = extractable,
           kusages = filter (\<lambda>u. u = deriveBits_u \<or> u = deriveKey_u) usages,
           kmaterial = fresh \<rparr>,
       publicKey =
         \<lparr> ktype = public_k, kalgorithm = alg, kextractable = True,
           kusages = [], kmaterial = publicOf P fresh \<rparr> \<rparr>"

text \<open>\<open>exportKey('jwk', key)\<close>: rejected for a key that is not extractable.\<close>

definition exportKey_jwk :: "('sk, 'pk, 'j) platform \<Rightarrow> 'pk crypto_key \<Rightarrow> 'j option" where
  "exportKey_jwk P k = (if kextractable k then Some (exportJwk P (kmaterial k)) else None)"

text \<open>
  \<open>importKey('jwk', jwk, {name: 'ECDH', namedCurve: 'P-256'}, false, [])\<close>; a field
  that the message lacks (\<open>undefined\<close>) is rejected like a malformed key.
\<close>

definition importKey_jwk :: "('sk, 'pk, 'j) platform \<Rightarrow> 'j option \<Rightarrow> 'pk crypto_key option" where
  "importKey_jwk P jwk =
     (case jwk of
        None \<Rightarrow> None
      | Some j \<Rightarrow>
          (case importJwk P j of
             None \<Rightarrow> None
           | Some m \<Rightarrow>
               Some \<lparr> ktype = public_k, kalgorithm = ECDH_P256, kextractable = False,
                      kusages = [], kmaterial = m \<rparr>))"

text \<open>
  \<open>deriveBits({name: 'ECDH', public: peer}, own, 256)\<close>: rejected unless the base key
  is an ECDH private key with the usage \<open>deriveBits\<close> and the other key an ECDH public
  key.
\<close>

definition deriveBits ::
  "('sk, 'pk, 'j) platform \<Rightarrow> 'pk crypto_key \<Rightarrow> 'sk crypto_key \<Rightarrow> bytes option"
where
  "deriveBits P peer own =
     (if ktype own = private_k \<and> kalgorithm own = ECDH_P256 \<and> deriveBits_u \<in> set (kusages own)
         \<and> ktype peer = public_k \<and> kalgorithm peer = ECDH_P256
      then ecdh P (kmaterial own) (kmaterial peer)
      else None)"

text \<open>
  \<open>importKey('raw', bits, {name: 'AES-GCM', length: 256}, false, ['encrypt', 'decrypt'])\<close>:
  raw AES key data must be 128, 192 or 256 bits long.
\<close>

definition importKey_raw :: "bytes \<Rightarrow> bytes crypto_key option" where
  "importKey_raw bits =
     (if length bits = 16 \<or> length bits = 24 \<or> length bits = 32
      then Some \<lparr> ktype = secret_k, kalgorithm = AES_GCM, kextractable = False,
                  kusages = [encrypt_u, decrypt_u], kmaterial = bits \<rparr>
      else None)"

text \<open>\<open>encrypt({name: 'AES-GCM', iv}, key, data)\<close> and \<open>decrypt\<close> of the same shape.\<close>

definition encrypt ::
  "('sk, 'pk, 'j) platform \<Rightarrow> bytes \<Rightarrow> bytes crypto_key \<Rightarrow> bytes \<Rightarrow> bytes option"
where
  "encrypt P iv key data =
     (if kalgorithm key = AES_GCM \<and> encrypt_u \<in> set (kusages key)
      then aesEncrypt P (kmaterial key) iv data else None)"

definition decrypt ::
  "('sk, 'pk, 'j) platform \<Rightarrow> bytes \<Rightarrow> bytes crypto_key \<Rightarrow> bytes \<Rightarrow> bytes option"
where
  "decrypt P iv key data =
     (if kalgorithm key = AES_GCM \<and> decrypt_u \<in> set (kusages key)
      then aesDecrypt P (kmaterial key) iv data else None)"

section \<open>The session state\<close>

text \<open>
  The React state (\<open>useState\<close>) and the refs (\<open>useRef\<close>) of the component. \<open>userId\<close>
  is the uid of the signed in user, the empty string standing for the \<open>null\<close> before
  sign-in; the signaling listener is installed only once it is set.
  What the handlers do to the outside is recorded in the state as well:
  \<open>posted\<close> is the list of \<open>addDoc\<close> calls on signaling collections (path and
  document), \<open>deleted\<close> the list of \<open>deleteDoc\<close> calls issued (path and document
  id; a call that Firestore rejects is listed too, and deletes nothing),
  \<open>fileHistory\<close> the records added to the history collection, \<open>channelOut\<close> what
  was sent over the data channel.
  Randomness is a supply: the \<open>n\<close>-th \<open>generateKey\<close> call draws \<open>keySource n\<close>, the
  \<open>n\<close>-th \<open>getRandomValues\<close> call fills its array from \<open>ivSource n\<close>.
\<close>

record ('sk, 'pk, 'j) state =
  userId :: string
  connectedPeerId :: "string option"
  connectionStatus :: string
  transferProgress :: real
  message :: string
  receivedFile :: "received_file option"
  peerConnection :: "peer_conn option"
  dataChannel :: "data_channel option"
  receiveBuffer :: "bytes list"
  receivedFileMetadata :: "control_msg option"
  receivedSize :: nat
  symmetricKey :: "bytes crypto_key option"
  cryptoKeyPair :: "('sk, 'pk) key_pair option"
  posted :: "(string \<times> 'j sig_msg) list"
  deleted :: "(string \<times> string) list"
  fileHistory :: "transfer_record list"
  channelOut :: "chan_msg list"
  keySource :: "nat \<Rightarrow> 'sk"
  keyCount :: nat
  ivSource :: "nat \<Rightarrow> nat \<Rightarrow> byte"
  ivCount :: nat

text \<open>The state of a freshly mounted component, once \<open>uid\<close> is signed in.\<close>

definition initial_state ::
  "string \<Rightarrow> (nat \<Rightarrow> 'sk) \<Rightarrow> (nat \<Rightarrow> nat \<Rightarrow> byte) \<Rightarrow> ('sk, 'pk, 'j) state"
where
  "initial_state uid keys ivs =
     \<lparr> userId = uid, connectedPeerId = Some [], connectionStatus = ''disconnected'',
       transferProgress = 0,
       message = ''Welcome! Generate an ID or enter one to connect.'',
       receivedFile = None, peerConnection = None, dataChannel = None,
       receiveBuffer = [], receivedFileMetadata = None, receivedSize = 0,
       symmetricKey = None, cryptoKeyPair = None,
       posted = [], deleted = [], fileHistory = [], channelOut = [],
       keySource = keys, keyCount = 0, ivSource = ivs, ivCount = 0 \<rparr>"

text \<open>
  A \<open>try\<close> block either completes or throws; what it assigned before throwing stays
  assigned, so both outcomes carry the state reached.
\<close>

datatype 's outcome = Completed 's | Threw 's

text \<open>
  \<open>await r s k\<close>: the awaited call \<open>r\<close> either rejects, and the block throws in the
  state \<open>s\<close> reached so far, or yields a value with which the block goes on.
\<close>

definition await :: "'a option \<Rightarrow> 's \<Rightarrow> ('a \<Rightarrow> 's outcome) \<Rightarrow> 's outcome" where
  "await r s k = (case r of None \<Rightarrow> Threw s | Some x \<Rightarrow> k x)"

text \<open>The state a block ends in, whether it completed or threw.\<close>

primrec outcome_state :: "'s outcome \<Rightarrow> 's" where
  "outcome_state (Completed s) = s"
| "outcome_state (Threw s) = s"

text \<open>A template literal prints an absent value as \<open>undefined\<close>.\<close>

definition id_text :: "string option \<Rightarrow> string" where
  "id_text i = (case i of None \<Rightarrow> ''undefined'' | Some s \<Rightarrow> s)"

definition signalingPath :: "('sk, 'pk, 'j) platform \<Rightarrow> string \<Rightarrow> string" where
  "signalingPath P uid = ''artifacts/'' @ APP_ID P @ ''/users/'' @ uid @ ''/signaling''"

definition fileHistoryPath :: "('sk, 'pk, 'j) platform \<Rightarrow> string \<Rightarrow> string" where
  "fileHistoryPath P uid = ''artifacts/'' @ APP_ID P @ ''/users/'' @ uid @ ''/fileHistory''"

definition addDoc ::
  "('sk, 'pk, 'j) platform \<Rightarrow> string \<Rightarrow> 'j sig_msg \<Rightarrow> ('sk, 'pk, 'j) state
    \<Rightarrow> ('sk, 'pk, 'j) state option"
where
  "addDoc P path d s =
     (if firestoreAccepts P path then Some (s\<lparr>posted := posted s @ [(path, d)]\<rparr>) else None)"

text \<open>
  \<open>deleteDoc(doc(db, signalingCollectionPath, id))\<close> on the local mailbox: the call
  is issued, and the code awaiting it goes on when Firestore accepts it and sees an
  exception when Firestore rejects it.
\<close>

definition deleteDoc ::
  "('sk, 'pk, 'j) platform \<Rightarrow> string \<Rightarrow> ('sk, 'pk, 'j) state \<Rightarrow> ('sk, 'pk, 'j) state outcome"
where
  "deleteDoc P docId s =
     (let s' = s\<lparr>deleted := deleted s @ [(signalingPath P (userId s), docId)]\<rparr> in
      if firestoreDeletes P (signalingPath P (userId s)) docId then Completed s' else Threw s')"

text \<open>
  \<open>peerConnection.current.setRemoteDescription(d)\<close> and \<open>setLocalDescription(d)\<close>:
  a \<open>TypeError\<close> when the ref is \<open>null\<close>, a rejection when the description is absent
  or the connection refuses it.
\<close>

definition setRemoteDescription ::
  "('sk, 'pk, 'j) platform \<Rightarrow> string option \<Rightarrow> ('sk, 'pk, 'j) state
    \<Rightarrow> ('sk, 'pk, 'j) state option"
where
  "setRemoteDescription P desc s =
     (case peerConnection s of
        None \<Rightarrow> None
      | Some pc \<Rightarrow>
          (case desc of
             None \<Rightarrow> None
           | Some d \<Rightarrow>
               if acceptsRemote P pc d
               then Some (s\<lparr>peerConnection := Some (pc\<lparr>remoteDescription := Some d\<rparr>)\<rparr>)
               else None))"

definition setLocalDescription ::
  "('sk, 'pk, 'j) platform \<Rightarrow> string \<Rightarrow> ('sk, 'pk, 'j) state
    \<Rightarrow> ('sk, 'pk, 'j) state option"
where
  "setLocalDescription P d s =
     (case peerConnection s of
        None \<Rightarrow> None
      | Some pc \<Rightarrow>
          if acceptsLocal P pc d
          then Some (s\<lparr>peerConnection := Some (pc\<lparr>localDescription := Some d\<rparr>)\<rparr>)
          else None)"

section \<open>Connection set-up and the data channel events\<close>

text \<open>
  \<open>setupPeerConnection(peerId)\<close>: a fresh ECDH key pair (the call passes
  \<open>{name: 'ECDH', namedCurve: 'P-256'}\<close>, \<open>true\<close> and \<open>['deriveBits']\<close>), a new peer
  connection and a new data channel \<open>fileTransfer\<close>. The handlers it installs are the
  functions \<open>onicecandidate\<close>, \<open>ondatachannel\<close>, \<open>onconnectionstatechange\<close>,
  \<open>onopen\<close>, \<open>onclose\<close> and \<open>onmessage\<close> below.
\<close>

definition setupPeerConnection ::
  "('sk, 'pk, 'j) platform \<Rightarrow> string option \<Rightarrow> ('sk, 'pk, 'j) state \<Rightarrow> ('sk, 'pk, 'j) state"
where
  "setupPeerConnection P peerId s =
     s\<lparr> cryptoKeyPair :=
          Some (generateKey P ECDH_P256 True [deriveBits_u] (keySource s (keyCount s))),
        keyCount := keyCount s + 1,
        peerConnection :=
          Some \<lparr> pc_peerId = peerId, localDescription = None, remoteDescription = None,
                 iceCandidates = [] \<rparr>,
        dataChannel := Some \<lparr> dc_label = ''fileTransfer'', readyState = ''connecting'' \<rparr> \<rparr>"

text \<open>
  \<open>onicecandidate\<close>: a candidate is posted to the mailbox of the peer the connection
  was set up for; a failing write is logged and nothing else happens.
\<close>

definition onicecandidate ::
  "('sk, 'pk, 'j) platform \<Rightarrow> string option \<Rightarrow> string option \<Rightarrow> ('sk, 'pk, 'j) state
    \<Rightarrow> ('sk, 'pk, 'j) state"
where
  "onicecandidate P peerId cand s =
     (case cand of
        None \<Rightarrow> s
      | Some c \<Rightarrow>
          (case addDoc P (signalingPath P (id_text peerId))
                  \<lparr> m_type = Some ''candidate'', m_senderId = Some (userId s),
                    m_targetId = peerId, m_publicKey = None, m_offer = None,
                    m_answer = None, m_candidate = Some c \<rparr> s of
             None \<Rightarrow> s
           | Some s' \<Rightarrow> s'))"

definition ondatachannel ::
  "data_channel \<Rightarrow> ('sk, 'pk, 'j) state \<Rightarrow> ('sk, 'pk, 'j) state"
where
  "ondatachannel channel s = s\<lparr>dataChannel := Some channel\<rparr>"

text \<open>
  \<open>onconnectionstatechange\<close> copies the connection's \<open>connectionState\<close> (the argument)
  into the status; with the ref \<open>null\<close> the read throws and nothing is set.
\<close>

definition onconnectionstatechange ::
  "string \<Rightarrow> ('sk, 'pk, 'j) state \<Rightarrow> ('sk, 'pk, 'j) state"
where
  "onconnectionstatechange connectionState s =
     (case peerConnection s of
        None \<Rightarrow> s
      | Some pc \<Rightarrow> s\<lparr>connectionStatus := connectionState\<rparr>)"

definition onopen :: "('sk, 'pk, 'j) state \<Rightarrow> ('sk, 'pk, 'j) state" where
  "onopen s =
     s\<lparr> connectionStatus := ''connected'',
        message := ''Connection established. You can now send or receive files.'' \<rparr>"

definition onclose :: "('sk, 'pk, 'j) state \<Rightarrow> ('sk, 'pk, 'j) state" where
  "onclose s =
     s\<lparr> connectionStatus := ''disconnected'',
        message := ''Peer disconnected. Click '' @ [CHR 0x22] @ ''Connect'' @ [CHR 0x22]
                     @ '' to re-establish.'',
        peerConnection := None,
        dataChannel := None,
        symmetricKey := None \<rparr>"

section \<open>The signaling listener\<close>

text \<open>
  The branch for \<open>data.type === 'offer'\<close>: the answerer sets up its connection for
  the sender, imports the sender's public key, derives 256 bits from it with its own
  fresh private key and installs them as the AES-GCM key; then it takes the offer as
  remote description, creates and sets its answer, exports its own public key and
  posts the answer to the sender's mailbox.
\<close>

definition offer_handler ::
  "('sk, 'pk, 'j) platform \<Rightarrow> 'j sig_msg \<Rightarrow> ('sk, 'pk, 'j) state
    \<Rightarrow> ('sk, 'pk, 'j) state outcome"
where
  "offer_handler P data s =
     (let s1 = setupPeerConnection P (m_senderId data) s in
      await (importKey_jwk P (m_publicKey data)) s1 (\<lambda>peerPublicKey.
      await (cryptoKeyPair s1) s1 (\<lambda>kp.
      await (deriveBits P peerPublicKey (privateKey kp)) s1 (\<lambda>derivedBits.
      await (importKey_raw derivedBits) s1 (\<lambda>key.
      let s2 = s1\<lparr>symmetricKey := Some key\<rparr> in
      await (setRemoteDescription P (m_offer data) s2) s2 (\<lambda>s3.
      await (peerConnection s3) s3 (\<lambda>pc.
      await (createAnswer P pc) s3 (\<lambda>answer.
      await (setLocalDescription P answer s3) s3 (\<lambda>s4.
      await (exportKey_jwk P (publicKey kp)) s4 (\<lambda>ownPublicKey.
      await (addDoc P (signalingPath P (id_text (m_senderId data)))
               \<lparr> m_type = Some ''answer'', m_senderId = Some (userId s4),
                 m_targetId = m_senderId data, m_publicKey = Some ownPublicKey,
                 m_offer = None, m_answer = Some answer, m_candidate = None \<rparr> s4) s4 (\<lambda>s5.
      Completed
        (s5\<lparr> connectedPeerId := m_senderId data,
             message := ''Received offer, created answer and derived shared key.'' \<rparr>))))))))))))"

text \<open>
  The branch for an answer addressed to the local user: the initiator imports the
  answerer's public key, derives the bits with the private key of the pair in
  \<open>cryptoKeyPair\<close> (a \<open>TypeError\<close> when the ref is \<open>null\<close>), installs the key and
  takes the answer as remote description.
\<close>

definition answer_handler ::
  "('sk, 'pk, 'j) platform \<Rightarrow> 'j sig_msg \<Rightarrow> ('sk, 'pk, 'j) state
    \<Rightarrow> ('sk, 'pk, 'j) state outcome"
where
  "answer_handler P data s =
     (await (importKey_jwk P (m_publicKey data)) s (\<lambda>peerPublicKey.
      await (cryptoKeyPair s) s (\<lambda>kp.
      await (deriveBits P peerPublicKey (privateKey kp)) s (\<lambda>derivedBits.
      await (importKey_raw derivedBits) s (\<lambda>key.
      let s1 = s\<lparr>symmetricKey := Some key\<rparr> in
      await (setRemoteDescription P (m_answer data) s1) s1 (\<lambda>s2.
      Completed
        (s2\<lparr>message :=
              ''Received answer, connection established and shared key derived.''\<rparr>)))))))"

text \<open>
  The branch for a candidate addressed to the local user:
  \<open>peerConnection.current?.addIceCandidate(data.candidate)\<close> does nothing when the ref
  is \<open>null\<close>.
\<close>

definition candidate_handler ::
  "('sk, 'pk, 'j) platform \<Rightarrow> 'j sig_msg \<Rightarrow> ('sk, 'pk, 'j) state
    \<Rightarrow> ('sk, 'pk, 'j) state outcome"
where
  "candidate_handler P data s =
     (case peerConnection s of
        None \<Rightarrow> Completed s
      | Some pc \<Rightarrow>
          if acceptsCandidate P pc (m_candidate data)
          then Completed
                 (s\<lparr>peerConnection :=
                      Some (pc\<lparr>iceCandidates := iceCandidates pc @ [m_candidate data]\<rparr>)\<rparr>)
          else Threw s)"

text \<open>The \<open>if\<close> chain inside the \<open>try\<close> block, in the order of the source.\<close>

definition handle_signaling ::
  "('sk, 'pk, 'j) platform \<Rightarrow> 'j sig_msg \<Rightarrow> ('sk, 'pk, 'j) state
    \<Rightarrow> ('sk, 'pk, 'j) state outcome"
where
  "handle_signaling P data s =
     (if m_type data = Some ''offer'' then offer_handler P data s
      else if m_type data = Some ''answer'' \<and> m_targetId data = Some (userId s)
        then answer_handler P data s
      else if m_type data = Some ''candidate'' \<and> m_targetId data = Some (userId s)
        then candidate_handler P data s
      else Completed s)"

text \<open>The \<open>catch\<close> block: the error is logged and reported in the status text.\<close>

definition catch_signaling :: "('sk, 'pk, 'j) state outcome \<Rightarrow> ('sk, 'pk, 'j) state" where
  "catch_signaling r =
     (case r of
        Completed s \<Rightarrow> s
      | Threw s \<Rightarrow> s\<lparr>message := ''Failed to process signaling message. See console.''\<rparr>)"

text \<open>
  The body of the loop over \<open>snap.docChanges()\<close>: a change that is not an addition is
  skipped; a document of the local user is deleted unread; any other document goes
  through \<open>try\<close>, \<open>catch\<close> and the \<open>finally\<close> block, which deletes it. Both
  \<open>deleteDoc\<close> calls are awaited outside any \<open>catch\<close>: when one is rejected, the
  iteration throws.
\<close>

definition process_change ::
  "('sk, 'pk, 'j) platform \<Rightarrow> 'j doc_change \<Rightarrow> ('sk, 'pk, 'j) state
    \<Rightarrow> ('sk, 'pk, 'j) state outcome"
where
  "process_change P change s =
     (if ch_type change \<noteq> added then Completed s
      else
        let data = ch_data change in
        if m_senderId data = Some (userId s) then deleteDoc P (ch_id change) s
        else deleteDoc P (ch_id change) (catch_signaling (handle_signaling P data s)))"

text \<open>
  The snapshot callback: the changes of the batch in order. An iteration that throws
  ends the loop (the promise of the callback is rejected), and the rest of the batch
  is not looked at.
\<close>

primrec onSnapshot_signaling ::
  "('sk, 'pk, 'j) platform \<Rightarrow> 'j doc_change list \<Rightarrow> ('sk, 'pk, 'j) state
    \<Rightarrow> ('sk, 'pk, 'j) state outcome"
where
  "onSnapshot_signaling P [] s = Completed s"
| "onSnapshot_signaling P (change # rest) s =
     (case process_change P change s of
        Completed s' \<Rightarrow> onSnapshot_signaling P rest s'
      | Threw s' \<Rightarrow> Threw s')"

text \<open>
  \<open>connectToPeer\<close>, with \<open>peerId\<close> the trimmed text of the input field: the caller sets
  up its connection, exports its public key, creates and sets its offer and posts it
  to the peer's mailbox.
\<close>

definition connectToPeer_try ::
  "('sk, 'pk, 'j) platform \<Rightarrow> string \<Rightarrow> ('sk, 'pk, 'j) state \<Rightarrow> ('sk, 'pk, 'j) state outcome"
where
  "connectToPeer_try P peerId s =
     (let s0 = s\<lparr>message := ''Creating connection offer...'', connectionStatus := ''connecting''\<rparr>;
          s1 = setupPeerConnection P (Some peerId) s0 in
      await (cryptoKeyPair s1) s1 (\<lambda>kp.
      await (exportKey_jwk P (publicKey kp)) s1 (\<lambda>ownPublicKey.
      await (peerConnection s1) s1 (\<lambda>pc.
      await (createOffer P pc) s1 (\<lambda>offer.
      await (setLocalDescription P offer s1) s1 (\<lambda>s2.
      await (addDoc P (signalingPath P peerId)
               \<lparr> m_type = Some ''offer'', m_senderId = Some (userId s2),
                 m_targetId = Some peerId, m_publicKey = Some ownPublicKey,
                 m_offer = Some offer, m_answer = None, m_candidate = None \<rparr> s2) s2 (\<lambda>s3.
      Completed
        (s3\<lparr> connectedPeerId := Some peerId,
             message := ''Offer sent. Waiting for peer to accept...'' \<rparr>))))))))"

definition connectToPeer ::
  "('sk, 'pk, 'j) platform \<Rightarrow> string \<Rightarrow> ('sk, 'pk, 'j) state \<Rightarrow> ('sk, 'pk, 'j) state"
where
  "connectToPeer P peerId s =
     (if peerId = [] \<or> userId s = [] then s\<lparr>message := ''Please enter a valid Peer ID first.''\<rparr>
      else
        case connectToPeer_try P peerId s of
          Completed s' \<Rightarrow> s'
        | Threw s' \<Rightarrow>
            s'\<lparr> message := ''Failed to connect to peer. Check the ID and try again.'',
                connectionStatus := ''disconnected'' \<rparr>)"

section \<open>Hashing, framing and the chunk loop\<close>

text \<open>
  \<open>hashFile\<close>: the SHA-256 digest of the blob's bytes, each byte printed by
  \<open>b.toString(16).padStart(2, '0')\<close> and the results joined.
\<close>

definition hexDigit :: "nat \<Rightarrow> char" where
  "hexDigit d = ''0123456789abcdef'' ! d"

function toString16 :: "nat \<Rightarrow> string" where
  "toString16 n = (if n < 16 then [hexDigit n] else toString16 (n div 16) @ [hexDigit (n mod 16)])"
  by pat_completeness auto
termination
  by (relation "measure id") auto

declare toString16.simps [simp del]

definition padStart :: "nat \<Rightarrow> char \<Rightarrow> string \<Rightarrow> string" where
  "padStart n c s = replicate (n - length s) c @ s"

definition hashFile :: "('sk, 'pk, 'j) platform \<Rightarrow> blob \<Rightarrow> string" where
  "hashFile P b =
     concat (map (\<lambda>b. padStart 2 (CHR ''0'') (toString16 (unat b))) (sha256 P (blob_bytes b)))"

text \<open>
  \<open>slice(begin, end)\<close> of an \<open>ArrayBuffer\<close> for \<open>begin \<le> end\<close>: the bytes from
  \<open>begin\<close> up to \<open>end\<close>, both clamped to the length. \<open>slice(begin)\<close> is \<open>drop begin\<close>.
\<close>

definition slice_bytes :: "bytes \<Rightarrow> nat \<Rightarrow> nat \<Rightarrow> bytes" where
  "slice_bytes buffer b e = take (e - b) (drop b buffer)"

text \<open>
  \<open>target.set(source, offset)\<close> on a \<open>Uint8Array\<close>: a \<open>RangeError\<close> when the source
  does not fit. \<open>getRandomValues\<close> fills an array of \<open>n\<close> bytes from the supply.
\<close>

definition u8_set :: "bytes \<Rightarrow> bytes \<Rightarrow> nat \<Rightarrow> bytes option" where
  "u8_set target source offset =
     (if offset + length source \<le> length target
      then Some (take offset target @ source @ drop (offset + length source) target)
      else None)"

definition getRandomValues :: "(nat \<Rightarrow> byte) \<Rightarrow> nat \<Rightarrow> bytes" where
  "getRandomValues supply n = map supply [0..<n]"

definition chunkSize :: nat where
  "chunkSize = 16 * 1024"

text \<open>
  One chunk on the sending side: encrypt it under the IV, allocate
  \<open>new Uint8Array(iv.length + encryptedChunk.byteLength)\<close> (zero-filled), write the IV
  at 0 and the ciphertext at \<open>iv.length\<close>.
\<close>

definition frame_chunk ::
  "('sk, 'pk, 'j) platform \<Rightarrow> bytes crypto_key \<Rightarrow> bytes \<Rightarrow> bytes \<Rightarrow> bytes option"
where
  "frame_chunk P key iv chunk =
     (case encrypt P iv key chunk of
        None \<Rightarrow> None
      | Some encryptedChunk \<Rightarrow>
          (case u8_set (replicate (length iv + length encryptedChunk) 0) iv 0 of
             None \<Rightarrow> None
           | Some combined \<Rightarrow> u8_set combined encryptedChunk (length iv)))"

text \<open>
  The \<open>while\<close> loop of \<open>sendFile\<close> from \<open>offset\<close> on, the \<open>n\<close>-th IV being drawn
  next. It yields, for every chunk sent, the frame and the value given to
  \<open>setTransferProgress\<close> after it, and whether the loop ended normally (\<open>False\<close>: an
  iteration threw).
\<close>

function sendChunks ::
  "('sk, 'pk, 'j) platform \<Rightarrow> bytes crypto_key \<Rightarrow> (nat \<Rightarrow> nat \<Rightarrow> byte) \<Rightarrow> nat \<Rightarrow> bytes \<Rightarrow> nat
    \<Rightarrow> (bytes \<times> real) list \<times> bool"
where
  "sendChunks P key ivs n fileData offset =
     (if offset < length fileData then
        (case frame_chunk P key (getRandomValues (ivs n) 12)
                (slice_bytes fileData offset (offset + chunkSize)) of
           None \<Rightarrow> ([], False)
         | Some combined \<Rightarrow>
             (let r = sendChunks P key ivs (Suc n) fileData (offset + chunkSize)
              in ((combined, real (offset + chunkSize) / real (length fileData) * 100) # fst r,
                  snd r)))
      else ([], True))"
  by pat_completeness auto
termination
  by (relation "measure (\<lambda>(P, key, ivs, n, fileData, offset). length fileData - offset)")
     (auto simp: chunkSize_def)

declare sendChunks.simps [simp del]

text \<open>
  \<open>reader.onload\<close> of \<open>sendFile\<close>: hash the file, add the transfer record, send the
  metadata, run the loop. Any exception ends in the \<open>catch\<close> block, which sets the
  status text.
\<close>

definition sendFile_onload ::
  "('sk, 'pk, 'j) platform \<Rightarrow> file_t \<Rightarrow> bytes crypto_key \<Rightarrow> ('sk, 'pk, 'j) state
    \<Rightarrow> ('sk, 'pk, 'j) state"
where
  "sendFile_onload P f key s =
     (let fileData = f_content f;
          fileHash = hashFile P \<lparr> blob_bytes = fileData, blob_type = [] \<rparr>
      in
      if \<not> firestoreAccepts P (fileHistoryPath P (userId s))
      then s\<lparr>message := ''Error during file transfer. Check connection and try again.''\<rparr>
      else
        let s1 = s\<lparr>fileHistory := fileHistory s @
                     [\<lparr> tr_senderId = userId s, tr_recipientId = connectedPeerId s,
                        tr_fileName = f_name f, tr_fileHash = fileHash,
                        tr_timestamp = clock P \<rparr>]\<rparr>;
            s2 = s1\<lparr>channelOut := channelOut s1 @
                     [TextMsg (Some \<lparr> c_type = ''fileMetadata'', fileName = f_name f,
                                      fileSize = length (f_content f), fileType = f_type f,
                                      fileHash = fileHash \<rparr>)]\<rparr>;
            r = sendChunks P key (ivSource s2) (ivCount s2) fileData 0;
            s3 = s2\<lparr> channelOut := channelOut s2 @ map (\<lambda>x. BinaryMsg (fst x)) (fst r),
                     transferProgress :=
                       (if fst r = [] then transferProgress s2 else snd (last (fst r))),
                     ivCount := ivCount s2 + length (fst r) + (if snd r then 0 else 1) \<rparr>
        in
        if snd r then s3\<lparr>message := ''File sent successfully!''\<rparr>
        else s3\<lparr>message := ''Error during file transfer. Check connection and try again.''\<rparr>)"

definition sendFile ::
  "('sk, 'pk, 'j) platform \<Rightarrow> file_t option \<Rightarrow> ('sk, 'pk, 'j) state \<Rightarrow> ('sk, 'pk, 'j) state"
where
  "sendFile P selected s =
     (case selected of
        None \<Rightarrow>
          s\<lparr>message := ''Please select a file and ensure you are connected to a peer.''\<rparr>
      | Some f \<Rightarrow>
          (case dataChannel s of
             None \<Rightarrow>
               s\<lparr>message := ''Please select a file and ensure you are connected to a peer.''\<rparr>
           | Some dc \<Rightarrow>
               if readyState dc \<noteq> ''open''
               then s\<lparr>message := ''Please select a file and ensure you are connected to a peer.''\<rparr>
               else
                 (case symmetricKey s of
                    None \<Rightarrow> s\<lparr>message := ''Error: Symmetric key not established.''\<rparr>
                  | Some key \<Rightarrow>
                      sendFile_onload P f key
                        (s\<lparr>message := ''Encrypting and sending file...'',
                           transferProgress := 0\<rparr>))))"

section \<open>The receiving side\<close>

text \<open>
  \<open>onmessage\<close> of the data channel. A text message that parses to an object of type
  \<open>fileMetadata\<close> resets the accumulation; other text is ignored. A binary message
  is split at byte 12 into IV and ciphertext, decrypted under the installed key and
  appended; once the byte count reaches the announced size the buffer is assembled,
  hashed and compared with the announced hash. A missing key or a failing decryption
  ends in the \<open>catch\<close> block.
\<close>

definition complete_transfer ::
  "('sk, 'pk, 'j) platform \<Rightarrow> control_msg \<Rightarrow> ('sk, 'pk, 'j) state \<Rightarrow> ('sk, 'pk, 'j) state"
where
  "complete_transfer P meta s =
     (let receivedBlob = \<lparr> blob_bytes = concat (receiveBuffer s), blob_type = fileType meta \<rparr>;
          receivedFileHash = hashFile P receivedBlob
      in
      if receivedFileHash = fileHash meta
      then s\<lparr> message := ''File received and verified successfully!'',
              receivedFile := Some \<lparr> rf_name = fileName meta, rf_blob = receivedBlob \<rparr> \<rparr>
      else s\<lparr> message := ''File transfer complete, but verification failed.'',
              receivedFile := None \<rparr>)"

definition onmessage_binary ::
  "('sk, 'pk, 'j) platform \<Rightarrow> bytes \<Rightarrow> ('sk, 'pk, 'j) state \<Rightarrow> ('sk, 'pk, 'j) state"
where
  "onmessage_binary P buffer s =
     (case symmetricKey s of
        None \<Rightarrow> s\<lparr>message := ''Error decrypting file. Transfer failed.''\<rparr>
      | Some key \<Rightarrow>
          (case decrypt P (slice_bytes buffer 0 12) key (drop 12 buffer) of
             None \<Rightarrow> s\<lparr>message := ''Error decrypting file. Transfer failed.''\<rparr>
           | Some decryptedChunk \<Rightarrow>
               (let s1 = s\<lparr> receiveBuffer := receiveBuffer s @ [decryptedChunk],
                            receivedSize := receivedSize s + length decryptedChunk \<rparr>
                in
                case receivedFileMetadata s1 of
                  None \<Rightarrow> s1
                | Some meta \<Rightarrow>
                    (let s2 = (if fileSize meta \<noteq> 0
                               then s1\<lparr>transferProgress :=
                                         real (receivedSize s1) / real (fileSize meta) * 100\<rparr>
                               else s1)
                     in
                     if receivedSize s2 \<ge> fileSize meta then complete_transfer P meta s2
                     else s2))))"

definition onmessage ::
  "('sk, 'pk, 'j) platform \<Rightarrow> chan_msg \<Rightarrow> ('sk, 'pk, 'j) state \<Rightarrow> ('sk, 'pk, 'j) state"
where
  "onmessage P msg s =
     (case msg of
        TextMsg parsed \<Rightarrow>
          (case parsed of
             None \<Rightarrow> s
           | Some p \<Rightarrow>
               if c_type p = ''fileMetadata''
               then s\<lparr> receivedFileMetadata := Some p,
                       receiveBuffer := [],
                       receivedSize := 0,
                       message := ''Receiving file: '' @ fileName p @ '' ('' @
                                  toFixed2 P (fileSize p) @ '' MB)...'',
                       transferProgress := 0 \<rparr>
               else s)
      | BinaryMsg buffer \<Rightarrow> onmessage_binary P buffer s)"

text \<open>
  The messages of a transfer handled serially: in the order sent, each handler
  finishing before the next message is handled. The source does not enforce this for
  binary messages: the handler awaits the decryption before it appends the chunk, so
  the handlers of two chunks in flight can append in either order. What is proved
  with \<open>receive_all\<close> holds for serial handling only.
\<close>

primrec receive_all ::
  "('sk, 'pk, 'j) platform \<Rightarrow> chan_msg list \<Rightarrow> ('sk, 'pk, 'j) state \<Rightarrow> ('sk, 'pk, 'j) state"
where
  "receive_all P [] s = s"
| "receive_all P (m # ms) s = receive_all P ms (onmessage P m s)"

section \<open>Events\<close>

text \<open>
  What can happen to a mounted component: a snapshot of the mailbox, the two
  buttons, and the callbacks of the peer connection and of the data channel. A
  callback belongs to the connection or channel it was installed on, which need not
  be the one the refs hold any more, so every event may occur in every state. When
  the platform calls \<open>onopen\<close> it has marked the channel open.
\<close>

datatype 'j event =
    Snapshot "'j doc_change list"
  | ConnectClicked string
  | SendClicked "file_t option"
  | IceCandidate "string option" "string option"
  | DataChannelOffered data_channel
  | ConnectionStateChanged string
  | ChannelOpened
  | ChannelClosed
  | ChannelMessage chan_msg

fun fire ::
  "('sk, 'pk, 'j) platform \<Rightarrow> 'j event \<Rightarrow> ('sk, 'pk, 'j) state \<Rightarrow> ('sk, 'pk, 'j) state"
where
  "fire P (Snapshot batch) s = outcome_state (onSnapshot_signaling P batch s)"
| "fire P (ConnectClicked peerId) s = connectToPeer P peerId s"
| "fire P (SendClicked selected) s = sendFile P selected s"
| "fire P (IceCandidate peerId cand) s = onicecandidate P peerId cand s"
| "fire P (DataChannelOffered channel) s = ondatachannel channel s"
| "fire P (ConnectionStateChanged st) s = onconnectionstatechange st s"
| "fire P ChannelOpened s =
     onopen (s\<lparr>dataChannel := map_option (\<lambda>d. d\<lparr>readyState := ''open''\<rparr>) (dataChannel s)\<rparr>)"
| "fire P ChannelClosed s = onclose s"
| "fire P (ChannelMessage msg) s = onmessage P msg s"

primrec run ::
  "('sk, 'pk, 'j) platform \<Rightarrow> 'j event list \<Rightarrow> ('sk, 'pk, 'j) state \<Rightarrow> ('sk, 'pk, 'j) state"
where
  "run P [] s = s"
| "run P (e # es) s = run P es (fire P e s)"



section \<open>A small platform for concrete runs\<close>

text \<open>
  A toy instance of the platform, used to run the handlers on concrete inputs: key
  agreement is Diffie-Hellman in the multiplicative group modulo 23 with generator 5
  (the shared value repeated to 32 bytes), a JWK is the public value itself and is
  rejected when it is not below 23, the cipher adds one to every byte and appends the
  one-byte tag \<open>0x5A\<close>, the digest is the length of its input.
\<close>

definition demo_platform :: "(nat, nat, nat) platform" where
  "demo_platform =
     \<lparr> publicOf = (\<lambda>a. 5 ^ a mod 23),
       exportJwk = (\<lambda>k. k),
       importJwk = (\<lambda>j. if j < 23 then Some j else None),
       ecdh = (\<lambda>a B. Some (replicate 32 (of_nat (B ^ a mod 23)))),
       aesEncrypt = (\<lambda>k iv p. Some (map (\<lambda>b. b + 1) p @ [0x5A])),
       aesDecrypt = (\<lambda>k iv c. if c \<noteq> [] \<and> last c = 0x5A
                                 then Some (map (\<lambda>b. b - 1) (butlast c)) else None),
       sha256 = (\<lambda>bs. [of_nat (length bs)]),
       createOffer = (\<lambda>pc. Some ''offer-sdp''),
       createAnswer = (\<lambda>pc. Some ''answer-sdp''),
       acceptsLocal = (\<lambda>pc d. True),
       acceptsRemote = (\<lambda>pc d. True),
       acceptsCandidate = (\<lambda>pc c. c \<noteq> None),
       firestoreAccepts = (\<lambda>path. True),
       firestoreDeletes = (\<lambda>path docId. True),
       APP_ID = ''default-app-id'',
       toFixed2 = (\<lambda>n. ''0.00''),
       clock = ''2024-01-01T00:00:00.000Z'' \<rparr>"

text \<open>The same platform with a Firestore that rejects every deletion.\<close>

definition offline_platform :: "(nat, nat, nat) platform" where
  "offline_platform = demo_platform\<lparr>firestoreDeletes := (\<lambda>path docId. False)\<rparr>"

definition alice_keys :: "nat \<Rightarrow> nat" where
  "alice_keys n = 6 + n"

definition bob_keys :: "nat \<Rightarrow> nat" where
  "bob_keys n = 15 + n"

definition demo_ivs :: "nat \<Rightarrow> nat \<Rightarrow> byte" where
  "demo_ivs n i = of_nat (n + i)"

definition alice0 :: "(nat, nat, nat) state" where
  "alice0 = initial_state ''alice'' alice_keys demo_ivs"

definition bob0 :: "(nat, nat, nat) state" where
  "bob0 = initial_state ''bob'' bob_keys demo_ivs"

text \<open>
  Documents for the runs: the offer that \<open>alice\<close> posts for \<open>bob\<close> (her first private
  value is 6, so her public value is \<open>5 ^ 6 mod 23 = 8\<close>), an offer from \<open>carol\<close>
  whose public key is malformed, and a document in \<open>bob\<close>'s mailbox that \<open>bob\<close> wrote.
\<close>

definition alice_offer :: "nat sig_msg" where
  "alice_offer =
     \<lparr> m_type = Some ''offer'', m_senderId = Some ''alice'', m_targetId = Some ''bob'',
       m_publicKey = Some 8, m_offer = Some ''offer-sdp'', m_answer = None,
       m_candidate = None \<rparr>"

definition carol_offer :: "nat sig_msg" where
  "carol_offer =
     \<lparr> m_type = Some ''offer'', m_senderId = Some ''carol'', m_targetId = Some ''bob'',
       m_publicKey = Some 99, m_offer = Some ''offer-sdp'', m_answer = None,
       m_candidate = None \<rparr>"


definition bob_mailbox :: string where
  "bob_mailbox = ''artifacts/default-app-id/users/bob/signaling''"

definition alice_mailbox :: string where
  "alice_mailbox = ''artifacts/default-app-id/users/alice/signaling''"

text \<open>
  The answer that \<open>bob\<close> posts back (his first private value is 15, his public value
  \<open>5 ^ 15 mod 23 = 19\<close>), the key both sides then hold (the shared value is 2), and
  the two sessions with that key installed and the data channel open.
\<close>

definition bob_answer :: "nat sig_msg" where
  "bob_answer =
     \<lparr> m_type = Some ''answer'', m_senderId = Some ''bob'', m_targetId = Some ''alice'',
       m_publicKey = Some 19, m_offer = None, m_answer = Some ''answer-sdp'',
       m_candidate = None \<rparr>"

definition demo_key :: "bytes crypto_key" where
  "demo_key =
     \<lparr> ktype = secret_k, kalgorithm = AES_GCM, kextractable = False,
       kusages = [encrypt_u, decrypt_u], kmaterial = replicate 32 2 \<rparr>"

definition alice_ready :: "(nat, nat, nat) state" where
  "alice_ready =
     alice0\<lparr> symmetricKey := Some demo_key,
             dataChannel := Some \<lparr> dc_label = ''fileTransfer'', readyState = ''open'' \<rparr>,
             connectionStatus := ''connected'' \<rparr>"

definition bob_ready :: "(nat, nat, nat) state" where
  "bob_ready =
     bob0\<lparr> symmetricKey := Some demo_key,
           dataChannel := Some \<lparr> dc_label = ''fileTransfer'', readyState = ''open'' \<rparr>,
           connectionStatus := ''connected'' \<rparr>"

text \<open>
  Files for the runs: two bytes, one byte and no byte; the metadata announcing the
  first (its digest on the small platform prints as \<open>02\<close>), the same with a wrong
  hash, and the frame of its only chunk under the first IV of the supply.
\<close>

definition hi_file :: file_t where
  "hi_file = \<lparr> f_name = ''hi.txt'', f_type = ''text/plain'', f_content = [0x68, 0x69] \<rparr>"

definition one_byte_file :: file_t where
  "one_byte_file = \<lparr> f_name = ''a.bin'', f_type = ''application/octet-stream'', f_content = [0x41] \<rparr>"

definition empty_file :: file_t where
  "empty_file = \<lparr> f_name = ''empty.txt'', f_type = ''text/plain'', f_content = [] \<rparr>"

definition hi_meta :: control_msg where
  "hi_meta =
     \<lparr> c_type = ''fileMetadata'', fileName = ''hi.txt'', fileSize = 2,
       fileType = ''text/plain'', fileHash = ''02'' \<rparr>"

definition hi_meta_wrong :: control_msg where
  "hi_meta_wrong = hi_meta\<lparr>fileHash := ''ff''\<rparr>"

definition hi_frame :: bytes where
  "hi_frame = [0, 1, 2, 3, 4, 5, 6, 7, 8, 9, 10, 11, 0x69, 0x6A, 0x5A]"

section \<open>What the handlers leave alone\<close>

text \<open>
  The steps of the signaling handlers change the connection objects, the keys and
  the list of posted documents; none of them touches the user id or the list of
  deletions.
\<close>

lemma setRemoteDescription_frame:
  "setRemoteDescription P d s = Some t \<Longrightarrow>
     userId t = userId s \<and> deleted t = deleted s \<and> symmetricKey t = symmetricKey s
     \<and> cryptoKeyPair t = cryptoKeyPair s \<and> posted t = posted s"
  by (auto simp: setRemoteDescription_def split: option.splits if_splits)

lemma setLocalDescription_frame:
  "setLocalDescription P d s = Some t \<Longrightarrow>
     userId t = userId s \<and> deleted t = deleted s \<and> symmetricKey t = symmetricKey s
     \<and> cryptoKeyPair t = cryptoKeyPair s \<and> posted t = posted s"
  by (auto simp: setLocalDescription_def split: option.splits if_splits)

lemma addDoc_frame:
  "addDoc P path m s = Some t \<Longrightarrow>
     userId t = userId s \<and> deleted t = deleted s \<and> symmetricKey t = symmetricKey s
     \<and> cryptoKeyPair t = cryptoKeyPair s \<and> posted t = posted s @ [(path, m)]"
  by (auto simp: addDoc_def split: if_splits)

lemma setupPeerConnection_frame:
  "userId (setupPeerConnection P p s) = userId s
   \<and> deleted (setupPeerConnection P p s) = deleted s
   \<and> symmetricKey (setupPeerConnection P p s) = symmetricKey s
   \<and> posted (setupPeerConnection P p s) = posted s"
  by (simp add: setupPeerConnection_def)

lemma catch_offer_frame:
  "userId (catch_signaling (offer_handler P d s)) = userId s
   \<and> deleted (catch_signaling (offer_handler P d s)) = deleted s"
  by (auto simp: offer_handler_def catch_signaling_def await_def Let_def
        setupPeerConnection_frame
      dest!: setRemoteDescription_frame setLocalDescription_frame addDoc_frame
      split: option.splits)

lemma catch_answer_frame:
  "userId (catch_signaling (answer_handler P d s)) = userId s
   \<and> deleted (catch_signaling (answer_handler P d s)) = deleted s"
  by (auto simp: answer_handler_def catch_signaling_def await_def Let_def
      dest!: setRemoteDescription_frame
      split: option.splits)

lemma catch_candidate_frame:
  "userId (catch_signaling (candidate_handler P d s)) = userId s
   \<and> deleted (catch_signaling (candidate_handler P d s)) = deleted s"
  by (auto simp: candidate_handler_def catch_signaling_def split: option.splits)

lemma catch_handle_frame:
  "userId (catch_signaling (handle_signaling P d s)) = userId s
   \<and> deleted (catch_signaling (handle_signaling P d s)) = deleted s"
  using catch_offer_frame [of P d s] catch_answer_frame [of P d s]
    catch_candidate_frame [of P d s]
  by (simp add: handle_signaling_def) (simp add: catch_signaling_def)

lemma deleteDoc_state:
  "outcome_state (deleteDoc P i s) = s\<lparr>deleted := deleted s @ [(signalingPath P (userId s), i)]\<rparr>"
  by (simp add: deleteDoc_def Let_def)

lemma process_change_frame:
  "userId (outcome_state (process_change P c s)) = userId s
   \<and> deleted (outcome_state (process_change P c s)) =
       deleted s @ (if ch_type c = added then [(signalingPath P (userId s), ch_id c)] else [])"
  using catch_handle_frame [of P "ch_data c" s]
  by (simp add: process_change_def deleteDoc_state Let_def)

lemma process_change_accepted:
  assumes "ch_type c = added \<longrightarrow> firestoreDeletes P (signalingPath P (userId s)) (ch_id c)"
  shows "\<exists>t. process_change P c s = Completed t"
  using assms catch_handle_frame [of P "ch_data c" s]
  by (simp add: process_change_def deleteDoc_def Let_def)


lemma deleted_onSnapshot:
  assumes "\<forall>c\<in>set cs. ch_type c = added
             \<longrightarrow> firestoreDeletes P (signalingPath P (userId s)) (ch_id c)"
  shows "\<exists>t. onSnapshot_signaling P cs s = Completed t
     \<and> deleted t =
         deleted s @ map (\<lambda>c. (signalingPath P (userId s), ch_id c))
                         (filter (\<lambda>c. ch_type c = added) cs)"
  using assms
proof (induction cs arbitrary: s)
  case Nil
  show ?case by simp
next
  case (Cons c cs)
  have "ch_type c = added \<longrightarrow> firestoreDeletes P (signalingPath P (userId s)) (ch_id c)"
    using Cons.prems by simp
  from process_change_accepted [OF this]
  obtain t where step: "process_change P c s = Completed t" ..
  have uid: "userId t = userId s" and del: "deleted t =
       deleted s @ (if ch_type c = added then [(signalingPath P (userId s), ch_id c)] else [])"
    using process_change_frame [of P c s] by (simp_all add: step)
  have "\<forall>c\<in>set cs. ch_type c = added
          \<longrightarrow> firestoreDeletes P (signalingPath P (userId t)) (ch_id c)"
    using Cons.prems uid by simp
  from Cons.IH [OF this]
  obtain u where rest: "onSnapshot_signaling P cs t = Completed u"
      "deleted u = deleted t @ map (\<lambda>c. (signalingPath P (userId t), ch_id c))
                         (filter (\<lambda>c. ch_type c = added) cs)"
    by blast
  have "onSnapshot_signaling P (c # cs) s = Completed u"
    by (simp add: step rest(1))
  moreover have "deleted u = deleted s @ map (\<lambda>c. (signalingPath P (userId s), ch_id c))
                         (filter (\<lambda>c. ch_type c = added) (c # cs))"
    by (simp add: rest(2) uid del)
  ultimately show ?case by blast
qed


lemma count_list_map_filter_distinct:
  "distinct (map f xs) \<Longrightarrow> x \<in> set xs \<Longrightarrow> p x \<Longrightarrow>
     count_list (map (\<lambda>c. (a, f c)) (filter p xs)) (a, f x) = 1"
proof (induction xs)
  case Nil
  then show ?case by simp
next
  case (Cons y ys)
  show ?case
  proof (cases "x = y")
    case True
    have "f y \<notin> f ` set ys" using Cons.prems(1) by simp
    then have "count_list (map (\<lambda>c. (a, f c)) (filter p ys)) (a, f y) = 0"
      by (auto simp: count_list_0_iff)
    with True Cons.prems(3) show ?thesis by simp
  next
    case False
    with Cons.prems have "x \<in> set ys" and "distinct (map f ys)" and "f y \<noteq> f x"
      by (auto simp: image_iff)
    with Cons.IH Cons.prems(3) show ?thesis by simp
  qed
qed

subsection \<open>Runs on the small platform\<close>

lemma bob0_userId [simp]: "userId bob0 = ''bob''"
  by (simp add: bob0_def initial_state_def)

lemma alice0_userId [simp]: "userId alice0 = ''alice''"
  by (simp add: alice0_def initial_state_def)

lemma bob0_deleted [simp]: "deleted bob0 = []"
  by (simp add: bob0_def initial_state_def)

lemma demo_path_bob [simp]: "signalingPath demo_platform ''bob'' = bob_mailbox"
  by (simp add: signalingPath_def demo_platform_def bob_mailbox_def)

lemma carol_offer_throws:
  "handle_signaling demo_platform carol_offer bob0 =
     Threw (setupPeerConnection demo_platform (Some ''carol'') bob0)"
  by (simp add: handle_signaling_def offer_handler_def await_def importKey_jwk_def
      demo_platform_def carol_offer_def)

lemma alice_connect:
  "\<exists>s'. connectToPeer_try demo_platform ''bob'' alice0 = Completed s'
     \<and> posted s' = [(bob_mailbox, alice_offer)]"
  by (simp add: connectToPeer_try_def await_def setupPeerConnection_def generateKey_def
      exportKey_jwk_def setLocalDescription_def addDoc_def demo_platform_def alice0_def
      initial_state_def alice_keys_def signalingPath_def bob_mailbox_def alice_offer_def Let_def)

section \<open>The mailbox\<close>

text \<open>
  Claim C5, as the code has it. Every signaling document that the listener reads
  (every added change of a snapshot) is handled inside \<open>try\<close>/\<open>catch\<close>, and its
  \<open>deleteDoc\<close> call is issued in the \<open>finally\<close> block, so also when the handling
  throws. As long as Firestore accepts the deletions of the batch: the callback runs
  through the whole batch; the documents deleted are exactly its added changes, in
  order, whatever the handlers do; when the handling of a change throws, the
  \<open>catch\<close> block sets the status text, the \<open>finally\<close> block deletes the document
  and the loop goes on with the rest of the batch; and with distinct document ids
  each added document is deleted once.
\<close>

theorem mailbox_deleted_exactly_once:
  assumes "\<forall>c\<in>set batch. ch_type c = added
             \<longrightarrow> firestoreDeletes P (signalingPath P (userId s)) (ch_id c)"
  shows "(\<exists>s'. onSnapshot_signaling P batch s = Completed s'
            \<and> deleted s' =
                deleted s @ map (\<lambda>c. (signalingPath P (userId s), ch_id c))
                                (filter (\<lambda>c. ch_type c = added) batch))
   \<and> (ch_type c = added \<and> m_senderId (ch_data c) \<noteq> Some (userId s)
        \<and> handle_signaling P (ch_data c) s = Threw t
        \<and> firestoreDeletes P (signalingPath P (userId s)) (ch_id c)
      \<longrightarrow> onSnapshot_signaling P (c # rest) s =
            onSnapshot_signaling P rest
              (t\<lparr>message := ''Failed to process signaling message. See console.'',
                 deleted := deleted t @ [(signalingPath P (userId s), ch_id c)]\<rparr>))
   \<and> (distinct (map ch_id batch) \<and> c' \<in> set batch \<and> ch_type c' = added
      \<longrightarrow> count_list
            (drop (length (deleted s)) (deleted (outcome_state (onSnapshot_signaling P batch s))))
            (signalingPath P (userId s), ch_id c') = 1)"
proof (intro conjI impI)
  from deleted_onSnapshot [OF assms]
  obtain s' where eq: "onSnapshot_signaling P batch s = Completed s'"
      "deleted s' = deleted s @ map (\<lambda>c. (signalingPath P (userId s), ch_id c))
                                (filter (\<lambda>c. ch_type c = added) batch)"
    by blast
  show "\<exists>s'. onSnapshot_signaling P batch s = Completed s'
            \<and> deleted s' =
                deleted s @ map (\<lambda>c. (signalingPath P (userId s), ch_id c))
                                (filter (\<lambda>c. ch_type c = added) batch)"
    using eq by blast
  show "onSnapshot_signaling P (c # rest) s =
            onSnapshot_signaling P rest
              (t\<lparr>message := ''Failed to process signaling message. See console.'',
                 deleted := deleted t @ [(signalingPath P (userId s), ch_id c)]\<rparr>)"
    if h: "ch_type c = added \<and> m_senderId (ch_data c) \<noteq> Some (userId s)
        \<and> handle_signaling P (ch_data c) s = Threw t
        \<and> firestoreDeletes P (signalingPath P (userId s)) (ch_id c)"
  proof -
    have "userId t = userId s"
      using catch_handle_frame [of P "ch_data c" s] h by (simp add: catch_signaling_def)
    then show ?thesis
      using h by (simp add: process_change_def catch_signaling_def deleteDoc_def)
  qed
  show "count_list
            (drop (length (deleted s)) (deleted (outcome_state (onSnapshot_signaling P batch s))))
            (signalingPath P (userId s), ch_id c') = 1"
    if "distinct (map ch_id batch) \<and> c' \<in> set batch \<and> ch_type c' = added"
    using that by (simp add: eq count_list_map_filter_distinct)
qed

text \<open>
  A run: \<open>bob\<close> receives carol's malformed offer and then alice's offer in one
  batch. The first handling throws at the key import; both documents are deleted,
  each once, and the loop goes on to alice's offer.
\<close>

theorem mailbox_deleted_exactly_once_witness:
  "firestoreDeletes demo_platform (signalingPath demo_platform (userId bob0)) ''doc1''
   \<and> firestoreDeletes demo_platform (signalingPath demo_platform (userId bob0)) ''doc2''
   \<and> handle_signaling demo_platform carol_offer bob0 =
       Threw (setupPeerConnection demo_platform (Some ''carol'') bob0)
   \<and> deleted (outcome_state (onSnapshot_signaling demo_platform
        [\<lparr>ch_type = added, ch_id = ''doc1'', ch_data = carol_offer\<rparr>,
         \<lparr>ch_type = added, ch_id = ''doc2'', ch_data = alice_offer\<rparr>] bob0))
       = [(bob_mailbox, ''doc1''), (bob_mailbox, ''doc2'')]
   \<and> onSnapshot_signaling demo_platform
        [\<lparr>ch_type = added, ch_id = ''doc1'', ch_data = carol_offer\<rparr>,
         \<lparr>ch_type = added, ch_id = ''doc2'', ch_data = alice_offer\<rparr>] bob0
       = onSnapshot_signaling demo_platform
           [\<lparr>ch_type = added, ch_id = ''doc2'', ch_data = alice_offer\<rparr>]
           ((setupPeerConnection demo_platform (Some ''carol'') bob0)
              \<lparr>message := ''Failed to process signaling message. See console.'',
               deleted := [(bob_mailbox, ''doc1'')]\<rparr>)
   \<and> count_list (deleted (outcome_state (onSnapshot_signaling demo_platform
        [\<lparr>ch_type = added, ch_id = ''doc1'', ch_data = carol_offer\<rparr>,
         \<lparr>ch_type = added, ch_id = ''doc2'', ch_data = alice_offer\<rparr>] bob0)))
        (bob_mailbox, ''doc2'') = 1"
proof -
  have acc: "firestoreDeletes demo_platform p i" for p i
    by (simp add: demo_platform_def)
  have c: "m_senderId carol_offer \<noteq> Some (userId bob0)"
    by (simp add: carol_offer_def)
  have d: "deleted (setupPeerConnection demo_platform (Some ''carol'') bob0) = []"
    by (simp add: setupPeerConnection_frame)
  have "\<forall>c\<in>set [\<lparr>ch_type = added, ch_id = ''doc1'', ch_data = carol_offer\<rparr>,
          \<lparr>ch_type = added, ch_id = ''doc2'', ch_data = alice_offer\<rparr>]. ch_type c = added
          \<longrightarrow> firestoreDeletes demo_platform (signalingPath demo_platform (userId bob0)) (ch_id c)"
    by (simp add: acc)
  note T = mailbox_deleted_exactly_once [OF this,
        of "\<lparr>ch_type = added, ch_id = ''doc1'', ch_data = carol_offer\<rparr>"
        "setupPeerConnection demo_platform (Some ''carol'') bob0"
        "[\<lparr>ch_type = added, ch_id = ''doc2'', ch_data = alice_offer\<rparr>]"
        "\<lparr>ch_type = added, ch_id = ''doc2'', ch_data = alice_offer\<rparr>"]
  have A: "deleted (outcome_state (onSnapshot_signaling demo_platform
        [\<lparr>ch_type = added, ch_id = ''doc1'', ch_data = carol_offer\<rparr>,
         \<lparr>ch_type = added, ch_id = ''doc2'', ch_data = alice_offer\<rparr>] bob0))
       = [(bob_mailbox, ''doc1''), (bob_mailbox, ''doc2'')]"
    using conjunct1 [OF T] by (auto simp del: onSnapshot_signaling.simps)
  have B: "onSnapshot_signaling demo_platform
        [\<lparr>ch_type = added, ch_id = ''doc1'', ch_data = carol_offer\<rparr>,
         \<lparr>ch_type = added, ch_id = ''doc2'', ch_data = alice_offer\<rparr>] bob0
       = onSnapshot_signaling demo_platform
           [\<lparr>ch_type = added, ch_id = ''doc2'', ch_data = alice_offer\<rparr>]
           ((setupPeerConnection demo_platform (Some ''carol'') bob0)
              \<lparr>message := ''Failed to process signaling message. See console.'',
               deleted := [(bob_mailbox, ''doc1'')]\<rparr>)"
    using conjunct1 [OF conjunct2 [OF T]] carol_offer_throws c acc d
    by (simp del: onSnapshot_signaling.simps)
  have C: "count_list (deleted (outcome_state (onSnapshot_signaling demo_platform
        [\<lparr>ch_type = added, ch_id = ''doc1'', ch_data = carol_offer\<rparr>,
         \<lparr>ch_type = added, ch_id = ''doc2'', ch_data = alice_offer\<rparr>] bob0)))
        (bob_mailbox, ''doc2'') = 1"
    using conjunct2 [OF conjunct2 [OF T]] by (simp del: onSnapshot_signaling.simps)
  show ?thesis
    using acc carol_offer_throws A B C by (intro conjI)
qed

text \<open>
  The same batch when Firestore rejects the deletions: the handling of carol's
  offer throws and is caught, the \<open>deleteDoc\<close> call of the \<open>finally\<close> block is
  rejected, so the document stays in the mailbox, and the loop ends there: no
  \<open>deleteDoc\<close> call is made for alice's offer, and it is never handled (no key is
  installed).
\<close>

theorem mailbox_delete_rejected:
  "handle_signaling offline_platform carol_offer bob0 =
     Threw (setupPeerConnection offline_platform (Some ''carol'') bob0)
   \<and> firestoreDeletes offline_platform bob_mailbox ''doc1'' = False
   \<and> onSnapshot_signaling offline_platform
        [\<lparr>ch_type = added, ch_id = ''doc1'', ch_data = carol_offer\<rparr>,
         \<lparr>ch_type = added, ch_id = ''doc2'', ch_data = alice_offer\<rparr>] bob0
       = Threw ((setupPeerConnection offline_platform (Some ''carol'') bob0)
                  \<lparr>message := ''Failed to process signaling message. See console.'',
                   deleted := [(bob_mailbox, ''doc1'')]\<rparr>)
   \<and> symmetricKey (outcome_state (onSnapshot_signaling offline_platform
        [\<lparr>ch_type = added, ch_id = ''doc1'', ch_data = carol_offer\<rparr>,
         \<lparr>ch_type = added, ch_id = ''doc2'', ch_data = alice_offer\<rparr>] bob0)) = None"
proof -
  have th: "handle_signaling offline_platform carol_offer bob0 =
     Threw (setupPeerConnection offline_platform (Some ''carol'') bob0)"
    by (simp add: handle_signaling_def offer_handler_def await_def importKey_jwk_def
        offline_platform_def demo_platform_def carol_offer_def)
  have rej: "firestoreDeletes offline_platform p i = False" for p i
    by (simp add: offline_platform_def)
  have c: "m_senderId carol_offer \<noteq> Some ''bob''"
    by (simp add: carol_offer_def)
  have path: "signalingPath offline_platform ''bob'' = bob_mailbox"
    by (simp add: signalingPath_def offline_platform_def demo_platform_def bob_mailbox_def)
  have fr: "userId (setupPeerConnection offline_platform (Some ''carol'') bob0) = ''bob''"
      "deleted (setupPeerConnection offline_platform (Some ''carol'') bob0) = []"
      "symmetricKey (setupPeerConnection offline_platform (Some ''carol'') bob0) = None"
    by (simp_all add: setupPeerConnection_frame) (simp add: bob0_def initial_state_def)
  have run: "onSnapshot_signaling offline_platform
        [\<lparr>ch_type = added, ch_id = ''doc1'', ch_data = carol_offer\<rparr>,
         \<lparr>ch_type = added, ch_id = ''doc2'', ch_data = alice_offer\<rparr>] bob0
       = Threw ((setupPeerConnection offline_platform (Some ''carol'') bob0)
                  \<lparr>message := ''Failed to process signaling message. See console.'',
                   deleted := [(bob_mailbox, ''doc1'')]\<rparr>)"
    using c by (simp add: process_change_def th catch_signaling_def deleteDoc_def rej path fr
        Let_def)
  show ?thesis
    using th rej [of bob_mailbox "''doc1''"] run by (simp add: fr)
qed



text \<open>
  Claim C10. For a document of a remote sender, the answer branch and the candidate
  branch run only when \<open>targetId\<close> is the local user id (otherwise the document is
  only deleted), whereas the offer branch runs whatever \<open>targetId\<close> holds, also when
  it is absent: the offer handler does not read the field. The caller does write
  the offer with \<open>targetId\<close> set to the peer it connects to.
\<close>

theorem targetId_gating:
  assumes "ch_type c = added" and "m_senderId (ch_data c) \<noteq> Some (userId s)"
  shows "(m_type (ch_data c) = Some ''offer'' \<longrightarrow>
            process_change P c s =
              deleteDoc P (ch_id c) (catch_signaling (offer_handler P (ch_data c) s)))
    \<and> (m_type (ch_data c) = Some ''answer'' \<longrightarrow>
            process_change P c s =
              (if m_targetId (ch_data c) = Some (userId s)
               then deleteDoc P (ch_id c) (catch_signaling (answer_handler P (ch_data c) s))
               else deleteDoc P (ch_id c) s))
    \<and> (m_type (ch_data c) = Some ''candidate'' \<longrightarrow>
            process_change P c s =
              (if m_targetId (ch_data c) = Some (userId s)
               then deleteDoc P (ch_id c) (catch_signaling (candidate_handler P (ch_data c) s))
               else deleteDoc P (ch_id c) s))
    \<and> offer_handler P ((ch_data c)\<lparr>m_targetId := t\<rparr>) s = offer_handler P (ch_data c) s
    \<and> (connectToPeer_try P peerId s = Completed s' \<longrightarrow>
         (\<exists>m. posted s' = posted s @ [(signalingPath P peerId, m)]
              \<and> m_type m = Some ''offer'' \<and> m_targetId m = Some peerId
              \<and> m_senderId m = Some (userId s)))"
proof (intro conjI impI)
  show "offer_handler P ((ch_data c)\<lparr>m_targetId := t\<rparr>) s = offer_handler P (ch_data c) s"
    by (simp add: offer_handler_def)
  show "\<exists>m. posted s' = posted s @ [(signalingPath P peerId, m)]
              \<and> m_type m = Some ''offer'' \<and> m_targetId m = Some peerId
              \<and> m_senderId m = Some (userId s)"
    if "connectToPeer_try P peerId s = Completed s'"
    using that
    by (auto simp: connectToPeer_try_def await_def Let_def setupPeerConnection_def
          dest!: setLocalDescription_frame addDoc_frame split: option.splits)
qed (use assms in \<open>simp_all add: process_change_def handle_signaling_def catch_signaling_def\<close>)

text \<open>
  Runs: an offer without \<open>targetId\<close> is handled like alice's offer; an answer
  addressed to \<open>carol\<close> and a candidate without \<open>targetId\<close> are only deleted;
  alice's \<open>connectToPeer\<close> posts her offer with \<open>targetId\<close> set to \<open>bob\<close>.
\<close>

theorem targetId_gating_witness:
  "process_change demo_platform
     \<lparr>ch_type = added, ch_id = ''doc1'', ch_data = alice_offer\<lparr>m_targetId := None\<rparr>\<rparr> bob0
     = deleteDoc demo_platform ''doc1'' (catch_signaling (offer_handler demo_platform alice_offer bob0))
   \<and> process_change demo_platform
       \<lparr>ch_type = added, ch_id = ''doc2'',
        ch_data = alice_offer\<lparr>m_type := Some ''answer'', m_targetId := Some ''carol''\<rparr>\<rparr> bob0
     = deleteDoc demo_platform ''doc2'' bob0
   \<and> process_change demo_platform
       \<lparr>ch_type = added, ch_id = ''doc3'',
        ch_data = alice_offer\<lparr>m_type := Some ''candidate'', m_targetId := None\<rparr>\<rparr> bob0
     = deleteDoc demo_platform ''doc3'' bob0
   \<and> (\<exists>s'. connectToPeer_try demo_platform ''bob'' alice0 = Completed s'
          \<and> posted s' = [(bob_mailbox, alice_offer)]
          \<and> m_targetId alice_offer = Some ''bob'')"
proof -
  have r: "m_senderId alice_offer \<noteq> Some (userId bob0)" "m_type alice_offer = Some ''offer''"
    by (simp_all add: alice_offer_def)
  have A: "process_change demo_platform
     \<lparr>ch_type = added, ch_id = ''doc1'', ch_data = alice_offer\<lparr>m_targetId := None\<rparr>\<rparr> bob0
     = deleteDoc demo_platform ''doc1'' (catch_signaling (offer_handler demo_platform alice_offer bob0))"
    using targetId_gating [of "\<lparr>ch_type = added, ch_id = ''doc1'',
        ch_data = alice_offer\<lparr>m_targetId := None\<rparr>\<rparr>" bob0 demo_platform "Some ''bob''"] r
    by (simp add: alice_offer_def)
  have B: "process_change demo_platform
       \<lparr>ch_type = added, ch_id = ''doc2'',
        ch_data = alice_offer\<lparr>m_type := Some ''answer'', m_targetId := Some ''carol''\<rparr>\<rparr> bob0
     = deleteDoc demo_platform ''doc2'' bob0"
    using targetId_gating [of "\<lparr>ch_type = added, ch_id = ''doc2'',
        ch_data = alice_offer\<lparr>m_type := Some ''answer'', m_targetId := Some ''carol''\<rparr>\<rparr>"
        bob0 demo_platform] r
    by simp
  have C: "process_change demo_platform
       \<lparr>ch_type = added, ch_id = ''doc3'',
        ch_data = alice_offer\<lparr>m_type := Some ''candidate'', m_targetId := None\<rparr>\<rparr> bob0
     = deleteDoc demo_platform ''doc3'' bob0"
    using targetId_gating [of "\<lparr>ch_type = added, ch_id = ''doc3'',
        ch_data = alice_offer\<lparr>m_type := Some ''candidate'', m_targetId := None\<rparr>\<rparr>"
        bob0 demo_platform] r
    by simp
  have D: "\<exists>s'. connectToPeer_try demo_platform ''bob'' alice0 = Completed s'
          \<and> posted s' = [(bob_mailbox, alice_offer)]
          \<and> m_targetId alice_offer = Some ''bob''"
    using alice_connect by (simp add: alice_offer_def)
  show ?thesis using A B C D by (intro conjI)
qed

section \<open>Key agreement\<close>

text \<open>
  Claim C7, as the code has it. \<open>setupPeerConnection\<close> always leaves a key pair in
  \<open>cryptoKeyPair\<close>: an ECDH P-256 pair whose private key has the single usage
  \<open>deriveBits\<close> (so it cannot sign) and whose public key can be exported. The
  private key is generated with the \<open>extractable\<close> flag \<open>true\<close>: it is extractable,
  not non-extractable.
\<close>

theorem setup_keypair_attributes:
  "\<exists>kp. cryptoKeyPair (setupPeerConnection P peerId s) = Some kp
     \<and> ktype (privateKey kp) = private_k
     \<and> kalgorithm (privateKey kp) = ECDH_P256
     \<and> kusages (privateKey kp) = [deriveBits_u]
     \<and> kextractable (privateKey kp)
     \<and> ktype (publicKey kp) = public_k
     \<and> kalgorithm (publicKey kp) = ECDH_P256
     \<and> exportKey_jwk P (publicKey kp) = Some (exportJwk P (publicOf P (keySource s (keyCount s))))"
  by (simp add: setupPeerConnection_def generateKey_def exportKey_jwk_def)

text \<open>
  The private key that \<open>alice\<close> gets when she sets up a connection to \<open>bob\<close> is
  extractable.
\<close>

theorem setup_private_key_extractable:
  "map_option (kextractable \<circ> privateKey)
     (cryptoKeyPair (setupPeerConnection demo_platform (Some ''bob'') alice0)) = Some True"
  by (simp add: setupPeerConnection_def generateKey_def)

text \<open>
  What a completed handshake step posts and installs: \<open>connectToPeer\<close> either posts
  nothing or posts the offer with the caller's fresh public key; handling an offer
  installs the key derived from the answerer's fresh private key and the public key
  in the offer, and posts nothing or the answer with the answerer's public key;
  handling an answer installs the key derived from the private key in
  \<open>cryptoKeyPair\<close> and the public key in the answer.
\<close>

lemma connectToPeer_posted_cases:
  "posted (connectToPeer P peer A) = posted A \<or>
   (\<exists>off. posted (connectToPeer P peer A) =
        posted A @ [(signalingPath P peer,
          \<lparr> m_type = Some ''offer'', m_senderId = Some (userId A), m_targetId = Some peer,
            m_publicKey = Some (exportJwk P (publicOf P (keySource A (keyCount A)))),
            m_offer = Some off, m_answer = None, m_candidate = None \<rparr>)]
    \<and> cryptoKeyPair (connectToPeer P peer A) =
        Some (generateKey P ECDH_P256 True [deriveBits_u] (keySource A (keyCount A)))
    \<and> userId (connectToPeer P peer A) = userId A)"
  by (auto simp: connectToPeer_def connectToPeer_try_def await_def Let_def
        setupPeerConnection_def generateKey_def exportKey_jwk_def
      dest!: setLocalDescription_frame addDoc_frame
      split: option.splits)

lemma offer_processed_key:
  assumes "m_type d = Some ''offer''" and "m_senderId d \<noteq> Some (userId B)"
      and "m_publicKey d = Some (exportJwk P pubA)"
      and "importJwk P (exportJwk P pubA) = Some pubA"
      and "ecdh P (keySource B (keyCount B)) pubA = Some k" and "length k = 32"
  shows "symmetricKey (outcome_state (process_change P \<lparr>ch_type = added, ch_id = i, ch_data = d\<rparr> B))
           = importKey_raw k"
  using assms
  by (auto simp: process_change_def handle_signaling_def offer_handler_def await_def Let_def
        catch_signaling_def deleteDoc_def importKey_jwk_def deriveBits_def
        setupPeerConnection_def generateKey_def importKey_raw_def
      dest!: setRemoteDescription_frame setLocalDescription_frame addDoc_frame
      split: option.splits)

lemma offer_processed_posted:
  assumes "m_type d = Some ''offer''" and "m_senderId d \<noteq> Some (userId B)"
  shows "posted (outcome_state (process_change P \<lparr>ch_type = added, ch_id = i, ch_data = d\<rparr> B)) = posted B \<or>
    (\<exists>ans. posted (outcome_state (process_change P \<lparr>ch_type = added, ch_id = i, ch_data = d\<rparr> B)) =
       posted B @ [(signalingPath P (id_text (m_senderId d)),
          \<lparr> m_type = Some ''answer'', m_senderId = Some (userId B), m_targetId = m_senderId d,
            m_publicKey = Some (exportJwk P (publicOf P (keySource B (keyCount B)))),
            m_offer = None, m_answer = Some ans, m_candidate = None \<rparr>)])"
  using assms
  by (auto simp: process_change_def handle_signaling_def offer_handler_def await_def Let_def
        catch_signaling_def deleteDoc_def
        setupPeerConnection_def generateKey_def exportKey_jwk_def
      dest!: setRemoteDescription_frame setLocalDescription_frame addDoc_frame
      split: option.splits)

lemma answer_processed_key:
  assumes "m_type d = Some ''answer''" and "m_senderId d \<noteq> Some (userId A)"
      and "m_targetId d = Some (userId A)"
      and "m_publicKey d = Some (exportJwk P pubB)"
      and "importJwk P (exportJwk P pubB) = Some pubB"
      and "cryptoKeyPair A = Some (generateKey P ECDH_P256 True [deriveBits_u] a)"
      and "ecdh P a pubB = Some k" and "length k = 32"
  shows "symmetricKey (outcome_state (process_change P \<lparr>ch_type = added, ch_id = j, ch_data = d\<rparr> A))
           = importKey_raw k"
  using assms
  by (auto simp: process_change_def handle_signaling_def answer_handler_def await_def Let_def
        catch_signaling_def deleteDoc_def importKey_jwk_def deriveBits_def
        generateKey_def importKey_raw_def
      dest!: setRemoteDescription_frame
      split: option.splits)

text \<open>
  Claim C1. The elliptic-curve arithmetic is the platform's; what is required of it
  is the agreement law of ECDH (for private values \<open>a\<close> and \<open>b\<close>, deriving 256 bits
  from \<open>a\<close> and the public key of \<open>b\<close> gives the same 32 bytes as from \<open>b\<close> and the
  public key of \<open>a\<close>) and that a public key survives export and import as JWK.
  Then for every two sessions with different user ids and whatever fresh private
  keys they draw: when the caller's \<open>connectToPeer\<close> posts an offer, the answerer's
  offer branch handles it and posts an answer, and the caller's answer branch
  handles that answer, both sessions hold the same symmetric key: the one derived
  from the caller's private key and the answerer's public key, which is the one
  derived from the answerer's private key and the caller's public key.
\<close>

theorem handshake_same_key:
  assumes dh: "\<forall>a b. \<exists>k. length k = 32 \<and> ecdh P a (publicOf P b) = Some k
                         \<and> ecdh P b (publicOf P a) = Some k"
      and jwk: "\<forall>a. importJwk P (exportJwk P (publicOf P a)) = Some (publicOf P a)"
      and ids: "userId A \<noteq> userId B"
      and offer_posted: "posted (connectToPeer P peer A) = posted A @ [(boxB, offer)]"
      and answer_posted:
        "posted (outcome_state (process_change P \<lparr>ch_type = added, ch_id = i, ch_data = offer\<rparr> B))
           = posted B @ [(boxA, answer)]"
  shows "symmetricKey (outcome_state (process_change P \<lparr>ch_type = added, ch_id = j, ch_data = answer\<rparr>
                         (connectToPeer P peer A)))
         = symmetricKey (outcome_state (process_change P \<lparr>ch_type = added, ch_id = i, ch_data = offer\<rparr> B))
       \<and> (\<exists>key. symmetricKey (outcome_state (process_change P \<lparr>ch_type = added, ch_id = i, ch_data = offer\<rparr> B))
                  = Some key
              \<and> ecdh P (keySource A (keyCount A)) (publicOf P (keySource B (keyCount B)))
                  = Some (kmaterial key)
              \<and> ecdh P (keySource B (keyCount B)) (publicOf P (keySource A (keyCount A)))
                  = Some (kmaterial key))"
proof -
  let ?a = "keySource A (keyCount A)" and ?b = "keySource B (keyCount B)"
  let ?A1 = "connectToPeer P peer A"
  from dh obtain k where k: "length k = 32" "ecdh P ?a (publicOf P ?b) = Some k"
      "ecdh P ?b (publicOf P ?a) = Some k"
    by blast
  from connectToPeer_posted_cases [of P peer A] offer_posted
  obtain off where offer: "offer = \<lparr> m_type = Some ''offer'', m_senderId = Some (userId A),
            m_targetId = Some peer, m_publicKey = Some (exportJwk P (publicOf P ?a)),
            m_offer = Some off, m_answer = None, m_candidate = None \<rparr>"
      and kpA: "cryptoKeyPair ?A1 = Some (generateKey P ECDH_P256 True [deriveBits_u] ?a)"
      and uidA: "userId ?A1 = userId A"
    by auto
  have o1: "m_type offer = Some ''offer''" "m_senderId offer \<noteq> Some (userId B)"
      "m_publicKey offer = Some (exportJwk P (publicOf P ?a))" "m_senderId offer = Some (userId A)"
    using ids by (simp_all add: offer)
  have keyB: "symmetricKey (outcome_state (process_change P \<lparr>ch_type = added, ch_id = i, ch_data = offer\<rparr> B))
                = importKey_raw k"
    using offer_processed_key [OF o1(1,2,3) jwk [rule_format] k(3) k(1)] .
  from offer_processed_posted [OF o1(1,2), of P i] answer_posted
  obtain ans where answer: "answer = \<lparr> m_type = Some ''answer'', m_senderId = Some (userId B),
            m_targetId = m_senderId offer,
            m_publicKey = Some (exportJwk P (publicOf P ?b)),
            m_offer = None, m_answer = Some ans, m_candidate = None \<rparr>"
    by auto
  have a1: "m_type answer = Some ''answer''" "m_senderId answer \<noteq> Some (userId ?A1)"
      "m_targetId answer = Some (userId ?A1)"
      "m_publicKey answer = Some (exportJwk P (publicOf P ?b))"
    using ids by (simp_all add: answer o1(4) uidA)
  have keyA: "symmetricKey (outcome_state (process_change P \<lparr>ch_type = added, ch_id = j, ch_data = answer\<rparr> ?A1))
                = importKey_raw k"
    using answer_processed_key [OF a1 jwk [rule_format] kpA k(2) k(1)] .
  have raw: "\<exists>key. importKey_raw k = Some key \<and> kmaterial key = k"
    using k(1) by (simp add: importKey_raw_def)
  show ?thesis
    using keyA keyB raw k(2,3) by auto
qed

text \<open>
  The small platform satisfies both requirements, and the run is the handshake of
  \<open>alice\<close> (private value 6) and \<open>bob\<close> (private value 15): both end with the key
  whose material is the shared value 2.
\<close>

lemma demo_dh:
  "\<forall>a b. \<exists>k. length k = 32 \<and> ecdh demo_platform a (publicOf demo_platform b) = Some k
                  \<and> ecdh demo_platform b (publicOf demo_platform a) = Some k"
proof (intro allI)
  fix a b :: nat
  have "(5 ^ b mod 23) ^ a mod 23 = (5 ^ a mod 23) ^ b mod (23::nat)"
    by (simp add: power_mod flip: power_mult) (simp add: mult.commute)
  then show "\<exists>k. length k = 32 \<and> ecdh demo_platform a (publicOf demo_platform b) = Some k
                  \<and> ecdh demo_platform b (publicOf demo_platform a) = Some k"
    by (simp add: demo_platform_def)
qed

lemma demo_jwk:
  "\<forall>a. importJwk demo_platform (exportJwk demo_platform (publicOf demo_platform a))
         = Some (publicOf demo_platform a)"
  by (simp add: demo_platform_def)

lemma alice_posts_offer:
  "posted (connectToPeer demo_platform ''bob'' alice0) = posted alice0 @ [(bob_mailbox, alice_offer)]"
  by (simp add: connectToPeer_def connectToPeer_try_def await_def setupPeerConnection_def
      generateKey_def exportKey_jwk_def setLocalDescription_def addDoc_def demo_platform_def
      alice0_def initial_state_def alice_keys_def signalingPath_def bob_mailbox_def
      alice_offer_def Let_def)

lemma bob_posts_answer:
  "posted (outcome_state (process_change demo_platform \<lparr>ch_type = added, ch_id = ''doc1'', ch_data = alice_offer\<rparr> bob0))
     = posted bob0 @ [(alice_mailbox, bob_answer)]"
  by (simp add: process_change_def handle_signaling_def offer_handler_def await_def
      catch_signaling_def deleteDoc_def importKey_jwk_def deriveBits_def importKey_raw_def
      setupPeerConnection_def generateKey_def exportKey_jwk_def setRemoteDescription_def
      setLocalDescription_def addDoc_def demo_platform_def
      bob0_def initial_state_def bob_keys_def signalingPath_def alice_mailbox_def id_text_def
      alice_offer_def bob_answer_def Let_def)

lemma bob_key:
  "symmetricKey (outcome_state (process_change demo_platform
      \<lparr>ch_type = added, ch_id = ''doc1'', ch_data = alice_offer\<rparr> bob0)) = Some demo_key"
  by (simp add: process_change_def handle_signaling_def offer_handler_def await_def
      catch_signaling_def deleteDoc_def importKey_jwk_def deriveBits_def importKey_raw_def
      setupPeerConnection_def generateKey_def exportKey_jwk_def setRemoteDescription_def
      setLocalDescription_def addDoc_def demo_platform_def
      bob0_def initial_state_def bob_keys_def signalingPath_def alice_mailbox_def id_text_def
      alice_offer_def demo_key_def Let_def)

theorem handshake_same_key_witness:
  "userId alice0 \<noteq> userId bob0
   \<and> posted (connectToPeer demo_platform ''bob'' alice0) = posted alice0 @ [(bob_mailbox, alice_offer)]
   \<and> posted (outcome_state (process_change demo_platform
        \<lparr>ch_type = added, ch_id = ''doc1'', ch_data = alice_offer\<rparr> bob0))
       = posted bob0 @ [(alice_mailbox, bob_answer)]
   \<and> symmetricKey (outcome_state (process_change demo_platform
        \<lparr>ch_type = added, ch_id = ''doc2'', ch_data = bob_answer\<rparr>
        (connectToPeer demo_platform ''bob'' alice0))) = Some demo_key
   \<and> symmetricKey (outcome_state (process_change demo_platform
        \<lparr>ch_type = added, ch_id = ''doc1'', ch_data = alice_offer\<rparr> bob0)) = Some demo_key"
proof -
  have ids: "userId alice0 \<noteq> userId bob0" by simp
  have "symmetricKey (outcome_state (process_change demo_platform
        \<lparr>ch_type = added, ch_id = ''doc2'', ch_data = bob_answer\<rparr>
        (connectToPeer demo_platform ''bob'' alice0))) = Some demo_key"
    using handshake_same_key [OF demo_dh demo_jwk ids alice_posts_offer bob_posts_answer,
        of "''doc2''"] bob_key
    by simp
  then show ?thesis
    using ids alice_posts_offer bob_posts_answer bob_key by (intro conjI)
qed

section \<open>Chunk framing\<close>

text \<open>
  The frame built with the two \<open>set\<close> calls is the IV followed by the ciphertext.
\<close>

lemma frame_chunk_eq:
  "frame_chunk P key iv chunk = map_option (\<lambda>c. iv @ c) (encrypt P iv key chunk)"
  by (simp add: frame_chunk_def u8_set_def split: option.splits)

text \<open>
  Claim C2. AES-GCM is the platform's; what is required of it is that decryption
  under the same key bytes and IV inverts encryption. Then for every chunk and every
  installed key (a key imported from raw bits, as the handlers install it): the IV
  drawn by \<open>getRandomValues\<close> has 12 bytes; the frame the sender builds is exactly
  that IV followed by the ciphertext with its tag; the receiver's split at byte 12
  gives back the IV and the ciphertext; and the receiver's handler, holding the same
  key, appends exactly the chunk to its buffer and adds its length to the byte count.
\<close>

theorem frame_roundtrip:
  assumes law: "\<forall>iv p c. aesEncrypt P bits iv p = Some c \<longrightarrow> aesDecrypt P bits iv c = Some p"
      and key: "importKey_raw bits = Some key"
      and enc: "encrypt P (getRandomValues supply 12) key chunk = Some c"
      and inst: "symmetricKey r = Some key"
  shows "length (getRandomValues supply 12) = 12
     \<and> frame_chunk P key (getRandomValues supply 12) chunk = Some (getRandomValues supply 12 @ c)
     \<and> slice_bytes (getRandomValues supply 12 @ c) 0 12 = getRandomValues supply 12
     \<and> drop 12 (getRandomValues supply 12 @ c) = c
     \<and> decrypt P (getRandomValues supply 12) key c = Some chunk
     \<and> receiveBuffer (onmessage P (BinaryMsg (getRandomValues supply 12 @ c)) r)
         = receiveBuffer r @ [chunk]
     \<and> receivedSize (onmessage P (BinaryMsg (getRandomValues supply 12 @ c)) r)
         = receivedSize r + length chunk"
proof -
  let ?iv = "getRandomValues supply 12"
  have len: "length ?iv = 12" by (simp add: getRandomValues_def)
  have k: "kalgorithm key = AES_GCM" "kusages key = [encrypt_u, decrypt_u]" "kmaterial key = bits"
    using key by (auto simp: importKey_raw_def split: if_splits)
  have dec: "decrypt P ?iv key c = Some chunk"
    using law enc k by (simp add: encrypt_def decrypt_def)
  have fr: "frame_chunk P key ?iv chunk = Some (?iv @ c)"
    using enc by (simp add: frame_chunk_eq)
  have sl: "slice_bytes (?iv @ c) 0 12 = ?iv" "drop 12 (?iv @ c) = c"
    using len by (simp_all add: slice_bytes_def)
  have rb: "receiveBuffer (onmessage P (BinaryMsg (?iv @ c)) r) = receiveBuffer r @ [chunk]"
       "receivedSize (onmessage P (BinaryMsg (?iv @ c)) r) = receivedSize r + length chunk"
    using inst dec sl
    by (simp_all add: onmessage_def onmessage_binary_def complete_transfer_def Let_def
        split: option.splits)
  show ?thesis using len fr sl dec rb by (intro conjI)
qed

text \<open>The two bytes \<open>hi\<close> under the first IV of the supply, sent to \<open>bob\<close>.\<close>

lemma demo_aes_law:
  "\<forall>iv p c. aesEncrypt demo_platform bits iv p = Some c
      \<longrightarrow> aesDecrypt demo_platform bits iv c = Some p"
  by (auto simp: demo_platform_def comp_def)

lemma demo_key_raw: "importKey_raw (replicate 32 2) = Some demo_key"
  by (simp add: importKey_raw_def demo_key_def)

lemma demo_iv0: "getRandomValues (demo_ivs 0) 12 = [0, 1, 2, 3, 4, 5, 6, 7, 8, 9, 10, 11]"
  by (simp add: getRandomValues_def demo_ivs_def upt_rec)

lemma demo_encrypt_hi:
  "encrypt demo_platform (getRandomValues (demo_ivs 0) 12) demo_key [0x68, 0x69]
     = Some [0x69, 0x6A, 0x5A]"
  by (simp add: encrypt_def demo_key_def demo_platform_def)

lemma alice_ready_facts:
  "dataChannel alice_ready = Some \<lparr> dc_label = ''fileTransfer'', readyState = ''open'' \<rparr>"
  "symmetricKey alice_ready = Some demo_key"
  "firestoreAccepts demo_platform (fileHistoryPath demo_platform (userId alice_ready))"
  "channelOut alice_ready = []" "ivSource alice_ready = demo_ivs" "ivCount alice_ready = 0"
  by (simp_all add: alice_ready_def alice0_def initial_state_def demo_platform_def)

lemma bob_ready_facts:
  "symmetricKey bob_ready = Some demo_key" "receivedFile bob_ready = None"
  "receiveBuffer bob_ready = []" "receivedSize bob_ready = 0"
  "connectionStatus bob_ready = ''connected''" "receivedFileMetadata bob_ready = None"
  by (simp_all add: bob_ready_def bob0_def initial_state_def)

theorem frame_roundtrip_witness:
  "importKey_raw (replicate 32 2) = Some demo_key
   \<and> encrypt demo_platform (getRandomValues (demo_ivs 0) 12) demo_key [0x68, 0x69]
       = Some [0x69, 0x6A, 0x5A]
   \<and> symmetricKey bob_ready = Some demo_key
   \<and> frame_chunk demo_platform demo_key (getRandomValues (demo_ivs 0) 12) [0x68, 0x69] = Some hi_frame
   \<and> receiveBuffer (onmessage demo_platform (BinaryMsg hi_frame) bob_ready) = [[0x68, 0x69]]
   \<and> receivedSize (onmessage demo_platform (BinaryMsg hi_frame) bob_ready) = 2"
proof -
  have f: "getRandomValues (demo_ivs 0) 12 @ [0x69, 0x6A, 0x5A] = hi_frame"
    by (simp add: demo_iv0 hi_frame_def)
  show ?thesis
    using frame_roundtrip [OF demo_aes_law demo_key_raw demo_encrypt_hi bob_ready_facts(1)]
      demo_key_raw demo_encrypt_hi bob_ready_facts(1,3,4)
    by (simp add: f)
qed

section \<open>Verification on receipt\<close>

text \<open>
  Claim C4. When a chunk is decrypted and the byte count reaches the announced file
  size, the assembled artifact is exposed (\<open>receivedFile\<close> holds it) if and only if
  its digest, as \<open>hashFile\<close> prints it, equals the \<open>fileHash\<close> of the metadata; on a
  mismatch \<open>receivedFile\<close> is set to \<open>null\<close>. Below the announced size nothing is
  exposed or discarded. In every case the connection status, the data channel, the
  peer connection and the key stay as they were, so the channel remains usable.
\<close>

theorem verification_decides_exposure:
  assumes "symmetricKey s = Some key"
      and "decrypt P (slice_bytes buffer 0 12) key (drop 12 buffer) = Some chunk"
      and "receivedFileMetadata s = Some meta"
  shows "let s' = onmessage P (BinaryMsg buffer) s;
             b = \<lparr> blob_bytes = concat (receiveBuffer s @ [chunk]), blob_type = fileType meta \<rparr>
         in (fileSize meta \<le> receivedSize s + length chunk \<longrightarrow>
               receivedFile s' =
                 (if hashFile P b = fileHash meta
                  then Some \<lparr> rf_name = fileName meta, rf_blob = b \<rparr> else None))
          \<and> (receivedSize s + length chunk < fileSize meta \<longrightarrow> receivedFile s' = receivedFile s)
          \<and> connectionStatus s' = connectionStatus s
          \<and> dataChannel s' = dataChannel s
          \<and> peerConnection s' = peerConnection s
          \<and> symmetricKey s' = symmetricKey s"
  using assms
  by (simp add: onmessage_def onmessage_binary_def complete_transfer_def Let_def)

text \<open>
  The last chunk of \<open>hi.txt\<close> arrives at \<open>bob\<close>: with the right hash in the metadata
  the file is exposed, with a wrong hash it is not, and \<open>bob\<close> stays connected.
\<close>

lemma demo_hash_hi:
  "hashFile demo_platform \<lparr> blob_bytes = [0x68, 0x69], blob_type = t \<rparr> = ''02''"
  by (simp add: hashFile_def demo_platform_def toString16.simps hexDigit_def padStart_def)

theorem verification_decides_exposure_witness:
  "symmetricKey (bob_ready\<lparr>receivedFileMetadata := Some hi_meta\<rparr>) = Some demo_key
   \<and> decrypt demo_platform (slice_bytes hi_frame 0 12) demo_key (drop 12 hi_frame) = Some [0x68, 0x69]
   \<and> fileSize hi_meta \<le> receivedSize bob_ready + length [0x68 :: byte, 0x69]
   \<and> receivedFile (onmessage demo_platform (BinaryMsg hi_frame)
        (bob_ready\<lparr>receivedFileMetadata := Some hi_meta\<rparr>))
       = Some \<lparr> rf_name = ''hi.txt'',
                rf_blob = \<lparr> blob_bytes = [0x68, 0x69], blob_type = ''text/plain'' \<rparr> \<rparr>
   \<and> receivedFile (onmessage demo_platform (BinaryMsg hi_frame)
        (bob_ready\<lparr>receivedFileMetadata := Some hi_meta_wrong\<rparr>)) = None
   \<and> connectionStatus (onmessage demo_platform (BinaryMsg hi_frame)
        (bob_ready\<lparr>receivedFileMetadata := Some hi_meta_wrong\<rparr>)) = ''connected''"
proof -
  have d: "decrypt demo_platform (slice_bytes hi_frame 0 12) demo_key (drop 12 hi_frame)
             = Some [0x68, 0x69]"
    by (simp add: decrypt_def demo_key_def demo_platform_def hi_frame_def slice_bytes_def)
  have k: "symmetricKey (bob_ready\<lparr>receivedFileMetadata := Some m\<rparr>) = Some demo_key" for m
    by (simp add: bob_ready_facts)
  have sz: "fileSize hi_meta \<le> receivedSize bob_ready + length [0x68 :: byte, 0x69]"
    by (simp add: hi_meta_def bob_ready_facts)
  have A: "receivedFile (onmessage demo_platform (BinaryMsg hi_frame)
        (bob_ready\<lparr>receivedFileMetadata := Some hi_meta\<rparr>))
       = Some \<lparr> rf_name = ''hi.txt'',
                rf_blob = \<lparr> blob_bytes = [0x68, 0x69], blob_type = ''text/plain'' \<rparr> \<rparr>"
    using verification_decides_exposure [OF k d, of hi_meta hi_meta]
    by (simp add: Let_def bob_ready_facts demo_hash_hi hi_meta_def)
  have B: "receivedFile (onmessage demo_platform (BinaryMsg hi_frame)
        (bob_ready\<lparr>receivedFileMetadata := Some hi_meta_wrong\<rparr>)) = None
      \<and> connectionStatus (onmessage demo_platform (BinaryMsg hi_frame)
        (bob_ready\<lparr>receivedFileMetadata := Some hi_meta_wrong\<rparr>)) = ''connected''"
    using verification_decides_exposure [OF k d, of hi_meta_wrong hi_meta_wrong]
    by (simp add: Let_def bob_ready_facts demo_hash_hi hi_meta_def hi_meta_wrong_def)
  show ?thesis
    using k [of hi_meta] d sz A B by (intro conjI) simp_all
qed

section \<open>Whole transfers\<close>

text \<open>
  The digest depends on the bytes of a blob only. A decrypted chunk is appended, and
  the hash decides once the announced size is reached. A frame of the sender
  decrypts, at the receiver's split, to the chunk it was built from.
\<close>

lemma hashFile_bytes:
  "hashFile P \<lparr> blob_bytes = bs, blob_type = t1 \<rparr> = hashFile P \<lparr> blob_bytes = bs, blob_type = t2 \<rparr>"
  by (simp add: hashFile_def)

lemma onmessage_chunk:
  assumes "symmetricKey r = Some key"
      and "decrypt P (slice_bytes buffer 0 12) key (drop 12 buffer) = Some chunk"
      and "receivedFileMetadata r = Some meta"
  shows "symmetricKey (onmessage P (BinaryMsg buffer) r) = Some key
     \<and> receivedFileMetadata (onmessage P (BinaryMsg buffer) r) = Some meta
     \<and> receiveBuffer (onmessage P (BinaryMsg buffer) r) = receiveBuffer r @ [chunk]
     \<and> receivedSize (onmessage P (BinaryMsg buffer) r) = receivedSize r + length chunk
     \<and> (fileSize meta \<le> receivedSize r + length chunk \<longrightarrow>
          receivedFile (onmessage P (BinaryMsg buffer) r) =
            (if hashFile P \<lparr> blob_bytes = concat (receiveBuffer r @ [chunk]),
                              blob_type = fileType meta \<rparr> = fileHash meta
             then Some \<lparr> rf_name = fileName meta,
                          rf_blob = \<lparr> blob_bytes = concat (receiveBuffer r @ [chunk]),
                                      blob_type = fileType meta \<rparr> \<rparr>
             else None))"
  using assms
  by (simp add: onmessage_def onmessage_binary_def complete_transfer_def Let_def)

lemma frame_decrypts:
  assumes law: "\<forall>iv p c. aesEncrypt P bits iv p = Some c \<longrightarrow> aesDecrypt P bits iv c = Some p"
      and key: "importKey_raw bits = Some key"
      and fr: "frame_chunk P key (getRandomValues supply 12) chunk = Some combined"
  shows "decrypt P (slice_bytes combined 0 12) key (drop 12 combined) = Some chunk"
proof -
  let ?iv = "getRandomValues supply 12"
  from fr obtain c where c: "encrypt P ?iv key chunk = Some c" "combined = ?iv @ c"
    by (auto simp: frame_chunk_eq)
  have len: "length ?iv = 12" by (simp add: getRandomValues_def)
  have k: "kalgorithm key = AES_GCM" "kusages key = [encrypt_u, decrypt_u]" "kmaterial key = bits"
    using key by (auto simp: importKey_raw_def split: if_splits)
  have "decrypt P ?iv key c = Some chunk"
    using law c(1) k by (simp add: encrypt_def decrypt_def)
  then show ?thesis
    using len by (simp add: c(2) slice_bytes_def)
qed

text \<open>
  The loop of the sender against the handler of the receiver under serial handling,
  from any offset inside the file: if the receiver has the bytes below the offset,
  then after the frames of the remaining chunks, handled one after the other, it has
  the whole file, counted exactly, and has exposed it.
\<close>

lemma receive_chunks:
  assumes law: "\<forall>iv p c. aesEncrypt P bits iv p = Some c \<longrightarrow> aesDecrypt P bits iv c = Some p"
      and key: "importKey_raw bits = Some key"
      and sent: "snd (sendChunks P key ivs n fileData offset)"
      and inst: "symmetricKey r = Some key"
      and meta: "receivedFileMetadata r = Some meta"
      and size: "fileSize meta = length fileData"
      and hash: "fileHash meta = hashFile P \<lparr> blob_bytes = fileData, blob_type = ty \<rparr>"
      and off: "offset < length fileData"
      and buf: "concat (receiveBuffer r) = take offset fileData"
      and cnt: "receivedSize r = offset"
  shows "concat (receiveBuffer (receive_all P
            (map (\<lambda>x. BinaryMsg (fst x)) (fst (sendChunks P key ivs n fileData offset))) r)) = fileData
     \<and> receivedSize (receive_all P
            (map (\<lambda>x. BinaryMsg (fst x)) (fst (sendChunks P key ivs n fileData offset))) r)
         = length fileData
     \<and> receivedFile (receive_all P
            (map (\<lambda>x. BinaryMsg (fst x)) (fst (sendChunks P key ivs n fileData offset))) r)
         = Some \<lparr> rf_name = fileName meta,
                  rf_blob = \<lparr> blob_bytes = fileData, blob_type = fileType meta \<rparr> \<rparr>"
  using law key sent inst meta size hash off buf cnt
proof (induction P key ivs n fileData offset arbitrary: r rule: sendChunks.induct)
  case (1 P key ivs n fileData offset)
  note law = "1.prems"(1) and key = "1.prems"(2) and sent = "1.prems"(3)
    and inst = "1.prems"(4) and meta = "1.prems"(5) and size = "1.prems"(6)
    and hash = "1.prems"(7) and off = "1.prems"(8) and buf = "1.prems"(9)
    and cnt = "1.prems"(10)
  let ?chunk = "slice_bytes fileData offset (offset + chunkSize)"
  let ?next = "sendChunks P key ivs (Suc n) fileData (offset + chunkSize)"
  from sent off obtain combined where
    fr: "frame_chunk P key (getRandomValues (ivs n) 12) ?chunk = Some combined"
    by (subst (asm) sendChunks.simps) (auto split: option.splits)
  have unfold: "sendChunks P key ivs n fileData offset =
      ((combined, real (offset + chunkSize) / real (length fileData) * 100) # fst ?next, snd ?next)"
    using off fr by (subst sendChunks.simps) (simp add: Let_def)
  have sent': "snd ?next" using sent unfold by simp
  have dec: "decrypt P (slice_bytes combined 0 12) key (drop 12 combined) = Some ?chunk"
    using frame_decrypts [OF law key fr] .
  let ?r1 = "onmessage P (BinaryMsg combined) r"
  note step = onmessage_chunk [OF inst dec meta]
  have chunk: "?chunk = take chunkSize (drop offset fileData)"
    by (simp add: slice_bytes_def)
  have cat: "concat (receiveBuffer ?r1) = take (offset + chunkSize) fileData"
    using step buf by (simp add: chunk take_add)
  have run: "receive_all P (map (\<lambda>x. BinaryMsg (fst x)) (fst (sendChunks P key ivs n fileData offset))) r
      = receive_all P (map (\<lambda>x. BinaryMsg (fst x)) (fst ?next)) ?r1"
    by (simp add: unfold)
  show ?case
  proof (cases "offset + chunkSize < length fileData")
    case True
    have len: "length ?chunk = chunkSize" using True by (simp add: chunk)
    have sz: "receivedSize ?r1 = offset + chunkSize"
      using step cnt len by simp
    have k1: "symmetricKey ?r1 = Some key" and m1: "receivedFileMetadata ?r1 = Some meta"
      using step by simp_all
    from "1.IH" [OF off fr law key sent' k1 m1 size hash True cat sz]
    show ?thesis by (simp add: run)
  next
    case False
    have len: "length ?chunk = length fileData - offset" using False by (simp add: chunk)
    have full: "concat (receiveBuffer r @ [?chunk]) = fileData"
      using cat step False by simp
    have sz: "receivedSize ?r1 = length fileData"
      using step cnt off len by simp
    have fin: "?next = ([], True)"
      using False by (subst sendChunks.simps) simp
    have "receivedFile ?r1 = Some \<lparr> rf_name = fileName meta,
                  rf_blob = \<lparr> blob_bytes = fileData, blob_type = fileType meta \<rparr> \<rparr>"
      using step cnt off len full size hash
        hashFile_bytes [of P fileData "fileType meta" ty]
      by simp
    with sz cat False show ?thesis by (simp add: run fin)
  qed
qed

text \<open>What \<open>sendFile\<close> sends when the channel is open and the key is installed.\<close>

lemma sendFile_ready:
  assumes "dataChannel s = Some dc" and "readyState dc = ''open''"
      and "symmetricKey s = Some key"
      and "firestoreAccepts P (fileHistoryPath P (userId s))"
  shows "channelOut (sendFile P (Some f) s) =
           channelOut s @
           TextMsg (Some \<lparr> c_type = ''fileMetadata'', fileName = f_name f,
                            fileSize = length (f_content f), fileType = f_type f,
                            fileHash = hashFile P \<lparr> blob_bytes = f_content f, blob_type = [] \<rparr> \<rparr>)
           # map (\<lambda>x. BinaryMsg (fst x))
               (fst (sendChunks P key (ivSource s) (ivCount s) (f_content f) 0))
     \<and> message (sendFile P (Some f) s) =
         (if snd (sendChunks P key (ivSource s) (ivCount s) (f_content f) 0)
          then ''File sent successfully!''
          else ''Error during file transfer. Check connection and try again.'')
     \<and> transferProgress (sendFile P (Some f) s) =
         (if fst (sendChunks P key (ivSource s) (ivCount s) (f_content f) 0) = [] then 0
          else snd (last (fst (sendChunks P key (ivSource s) (ivCount s) (f_content f) 0))))"
  using assms by (simp add: sendFile_def sendFile_onload_def Let_def)

lemma sendChunks_empty: "sendChunks P key ivs n [] 0 = ([], True)"
  by (subst sendChunks.simps) simp

lemma onmessage_metadata:
  "c_type m = ''fileMetadata'' \<Longrightarrow>
     receivedFileMetadata (onmessage P (TextMsg (Some m)) r) = Some m
     \<and> receiveBuffer (onmessage P (TextMsg (Some m)) r) = []
     \<and> receivedSize (onmessage P (TextMsg (Some m)) r) = 0
     \<and> symmetricKey (onmessage P (TextMsg (Some m)) r) = symmetricKey r
     \<and> receivedFile (onmessage P (TextMsg (Some m)) r) = receivedFile r"
  by (simp add: onmessage_def)

text \<open>
  Under serial handling a file of at least one byte arrives whole: the receiver,
  holding the same key and handling the sender's messages one after the other, ends
  with a buffer whose bytes are the file's, a byte count equal to its size, and the
  file exposed under its name; the digests agree since the bytes do.
\<close>

lemma transfer_roundtrip_nonempty:
  assumes law: "\<forall>iv p c. aesEncrypt P bits iv p = Some c \<longrightarrow> aesDecrypt P bits iv c = Some p"
      and key: "importKey_raw bits = Some key"
      and ready: "dataChannel s = Some dc" "readyState dc = ''open''" "symmetricKey s = Some key"
        "firestoreAccepts P (fileHistoryPath P (userId s))"
      and sent: "snd (sendChunks P key (ivSource s) (ivCount s) (f_content f) 0)"
      and nonempty: "f_content f \<noteq> []"
      and inst: "symmetricKey r = Some key"
  shows "concat (receiveBuffer (receive_all P
            (drop (length (channelOut s)) (channelOut (sendFile P (Some f) s))) r)) = f_content f
     \<and> receivedSize (receive_all P
            (drop (length (channelOut s)) (channelOut (sendFile P (Some f) s))) r)
         = length (f_content f)
     \<and> receivedFile (receive_all P
            (drop (length (channelOut s)) (channelOut (sendFile P (Some f) s))) r)
         = Some \<lparr> rf_name = f_name f,
                  rf_blob = \<lparr> blob_bytes = f_content f, blob_type = f_type f \<rparr> \<rparr>"
proof -
  let ?meta = "\<lparr> c_type = ''fileMetadata'', fileName = f_name f,
                 fileSize = length (f_content f), fileType = f_type f,
                 fileHash = hashFile P \<lparr> blob_bytes = f_content f, blob_type = [] \<rparr> \<rparr>"
  let ?frames = "map (\<lambda>x. BinaryMsg (fst x))
                   (fst (sendChunks P key (ivSource s) (ivCount s) (f_content f) 0))"
  let ?r0 = "onmessage P (TextMsg (Some ?meta)) r"
  have out: "drop (length (channelOut s)) (channelOut (sendFile P (Some f) s))
               = TextMsg (Some ?meta) # ?frames"
    using sendFile_ready [OF ready, of f] by simp
  have r0: "receivedFileMetadata ?r0 = Some ?meta" "receiveBuffer ?r0 = []"
      "receivedSize ?r0 = 0" "symmetricKey ?r0 = Some key"
    using onmessage_metadata [of ?meta P r] inst by simp_all
  have "0 < length (f_content f)" using nonempty by simp
  from receive_chunks [OF law key sent r0(4) r0(1) _ _ this, of "[]"] r0(2,3)
  show ?thesis by (simp add: out)
qed

text \<open>
  Claim C3, at the empty file. The sender's loop does not run for a file of no
  bytes: only the metadata is sent, announcing size 0, and the sender reports
  success. The receiver's check of the byte count against the announced size sits in
  the handler of binary messages, and none arrives: its buffer is empty, as the file
  is, but no digest is computed and \<open>receivedFile\<close> is left as it was. The round
  trip does not complete for the empty file.
\<close>

theorem empty_file_never_completes:
  assumes "dataChannel s = Some dc" and "readyState dc = ''open''"
      and "symmetricKey s = Some key"
      and "firestoreAccepts P (fileHistoryPath P (userId s))"
      and "f_content f = []"
  shows "\<exists>meta. channelOut (sendFile P (Some f) s) = channelOut s @ [TextMsg (Some meta)]
     \<and> c_type meta = ''fileMetadata'' \<and> fileSize meta = 0
     \<and> message (sendFile P (Some f) s) = ''File sent successfully!''
     \<and> receivedFile (onmessage P (TextMsg (Some meta)) r) = receivedFile r
     \<and> receiveBuffer (onmessage P (TextMsg (Some meta)) r) = []
     \<and> receivedSize (onmessage P (TextMsg (Some meta)) r) = 0"
  using sendFile_ready [OF assms(1-4), of f] assms(5)
  by (simp add: sendChunks_empty onmessage_metadata)

text \<open>
  \<open>alice\<close> sends the empty file to \<open>bob\<close>: only the metadata goes out and
  nothing is exposed. For \<open>hi.txt\<close> the metadata and one frame go out, and the
  file is exposed when the frame is handled after the metadata.
\<close>

lemma demo_send_hi:
  "sendChunks demo_platform demo_key demo_ivs 0 [0x68, 0x69] 0 = ([(hi_frame, 819200)], True)"
  by (simp add: sendChunks.simps frame_chunk_eq encrypt_def demo_key_def demo_platform_def
      demo_iv0 slice_bytes_def chunkSize_def hi_frame_def)

theorem empty_file_never_completes_witness:
  "dataChannel alice_ready = Some \<lparr> dc_label = ''fileTransfer'', readyState = ''open'' \<rparr>
   \<and> symmetricKey alice_ready = Some demo_key
   \<and> firestoreAccepts demo_platform (fileHistoryPath demo_platform (userId alice_ready))
   \<and> f_content empty_file = []
   \<and> message (sendFile demo_platform (Some empty_file) alice_ready) = ''File sent successfully!''
   \<and> (\<exists>meta. channelOut (sendFile demo_platform (Some empty_file) alice_ready)
                 = [TextMsg (Some meta)]
           \<and> receivedFile (onmessage demo_platform (TextMsg (Some meta)) bob_ready) = None)
   \<and> channelOut (sendFile demo_platform (Some hi_file) alice_ready)
       = [TextMsg (Some hi_meta), BinaryMsg hi_frame]
   \<and> receivedFile (onmessage demo_platform (BinaryMsg hi_frame)
        (onmessage demo_platform (TextMsg (Some hi_meta)) bob_ready))
       = Some \<lparr> rf_name = ''hi.txt'',
                rf_blob = \<lparr> blob_bytes = [0x68, 0x69], blob_type = ''text/plain'' \<rparr> \<rparr>"
proof -
  have e: "f_content empty_file = []" by (simp add: empty_file_def)
  from empty_file_never_completes [OF alice_ready_facts(1) _ alice_ready_facts(2,3) e, of bob_ready]
  obtain meta where m: "channelOut (sendFile demo_platform (Some empty_file) alice_ready)
        = channelOut alice_ready @ [TextMsg (Some meta)]"
      "message (sendFile demo_platform (Some empty_file) alice_ready) = ''File sent successfully!''"
      "receivedFile (onmessage demo_platform (TextMsg (Some meta)) bob_ready) = receivedFile bob_ready"
    by auto
  have A: "\<exists>meta. channelOut (sendFile demo_platform (Some empty_file) alice_ready)
                 = [TextMsg (Some meta)]
           \<and> receivedFile (onmessage demo_platform (TextMsg (Some meta)) bob_ready) = None"
    using m(1,3) by (simp add: alice_ready_facts bob_ready_facts)
  have hi: "f_content hi_file = [0x68, 0x69]" "f_name hi_file = ''hi.txt''"
      "f_type hi_file = ''text/plain''"
    by (simp_all add: hi_file_def)
  have B: "channelOut (sendFile demo_platform (Some hi_file) alice_ready)
       = [TextMsg (Some hi_meta), BinaryMsg hi_frame]"
    using sendFile_ready [OF alice_ready_facts(1) _ alice_ready_facts(2,3), of hi_file]
    by (simp add: alice_ready_facts hi demo_send_hi demo_hash_hi hi_meta_def)
  have d: "decrypt demo_platform (slice_bytes hi_frame 0 12) demo_key (drop 12 hi_frame)
             = Some [0x68, 0x69]"
    by (simp add: decrypt_def demo_key_def demo_platform_def hi_frame_def slice_bytes_def)
  have C: "receivedFile (onmessage demo_platform (BinaryMsg hi_frame)
        (onmessage demo_platform (TextMsg (Some hi_meta)) bob_ready))
       = Some \<lparr> rf_name = ''hi.txt'',
                rf_blob = \<lparr> blob_bytes = [0x68, 0x69], blob_type = ''text/plain'' \<rparr> \<rparr>"
    using onmessage_metadata [of hi_meta demo_platform bob_ready]
      onmessage_chunk [of "onmessage demo_platform (TextMsg (Some hi_meta)) bob_ready" demo_key
        demo_platform hi_frame "[0x68, 0x69]" hi_meta] d
    by (simp add: bob_ready_facts demo_hash_hi hi_meta_def)
  show ?thesis
    using alice_ready_facts(1,2,3) e m(2) A B C by (intro conjI)
qed

text \<open>
  The value reported after the last chunk is the offset the loop has reached, a
  multiple of the chunk size that is at least the file size, over the file size.
\<close>

lemma last_progress:
  assumes "snd (sendChunks P key ivs n fileData offset)" and "offset < length fileData"
  shows "fst (sendChunks P key ivs n fileData offset) \<noteq> []
     \<and> (\<exists>k. snd (last (fst (sendChunks P key ivs n fileData offset)))
               = real (offset + k * chunkSize) / real (length fileData) * 100
            \<and> length fileData \<le> offset + k * chunkSize)"
  using assms
proof (induction P key ivs n fileData offset rule: sendChunks.induct)
  case (1 P key ivs n fileData offset)
  let ?chunk = "slice_bytes fileData offset (offset + chunkSize)"
  let ?next = "sendChunks P key ivs (Suc n) fileData (offset + chunkSize)"
  from "1.prems" obtain combined where
    fr: "frame_chunk P key (getRandomValues (ivs n) 12) ?chunk = Some combined"
    by (subst (asm) sendChunks.simps) (auto split: option.splits)
  have unfold: "sendChunks P key ivs n fileData offset =
      ((combined, real (offset + chunkSize) / real (length fileData) * 100) # fst ?next, snd ?next)"
    using "1.prems"(2) fr by (subst sendChunks.simps) (simp add: Let_def)
  have sent': "snd ?next" using "1.prems"(1) unfold by simp
  show ?case
  proof (cases "offset + chunkSize < length fileData")
    case True
    from "1.IH" [OF "1.prems"(2) fr sent' True]
    obtain k where ne: "fst ?next \<noteq> []"
      and k: "snd (last (fst ?next)) = real (offset + chunkSize + k * chunkSize) / real (length fileData) * 100"
        "length fileData \<le> offset + chunkSize + k * chunkSize"
      by blast
    have "snd (last (fst (sendChunks P key ivs n fileData offset)))
            = real (offset + Suc k * chunkSize) / real (length fileData) * 100"
      using ne k(1) by (simp add: unfold add.assoc)
    moreover have "length fileData \<le> offset + Suc k * chunkSize"
      using k(2) by simp
    ultimately show ?thesis
      unfolding unfold by (intro conjI exI [of _ "Suc k"]) simp_all
  next
    case False
    have fin: "?next = ([], True)"
      using False by (subst sendChunks.simps) simp
    show ?thesis
      using False by (simp add: unfold fin exI [of _ 1])
  qed
qed

text \<open>
  Claim C8, where it fails. The loop adds the chunk size to \<open>offset\<close> after every
  chunk, also after a shorter last chunk, and reports \<open>offset / byteLength * 100\<close>.
  So for every file that is not empty and whose size is not a multiple of 16384, the
  value reported after the final chunk is above 100: it is not the share of
  plaintext bytes sent.
\<close>

theorem sender_progress_overshoots:
  assumes "snd (sendChunks P key ivs n fileData 0)"
      and "fileData \<noteq> []"
      and "\<not> chunkSize dvd length fileData"
  shows "fst (sendChunks P key ivs n fileData 0) \<noteq> []
     \<and> 100 < snd (last (fst (sendChunks P key ivs n fileData 0)))"
proof -
  have pos: "0 < length fileData" using assms(2) by simp
  from last_progress [OF assms(1) pos]
  obtain k where ne: "fst (sendChunks P key ivs n fileData 0) \<noteq> []"
    and k: "snd (last (fst (sendChunks P key ivs n fileData 0)))
              = real (0 + k * chunkSize) / real (length fileData) * 100"
      "length fileData \<le> 0 + k * chunkSize"
    by blast
  have "length fileData \<noteq> k * chunkSize"
    using assms(3) by (metis dvd_triv_right)
  with k(2) have "length fileData < k * chunkSize" by simp
  then have "real (length fileData) < real (k * chunkSize)"
    by (simp only: of_nat_less_iff)
  moreover have "0 < real (length fileData)" using pos by simp
  ultimately have "1 < real (0 + k * chunkSize) / real (length fileData)"
    by (simp only: less_divide_eq_1_pos add_0)
  moreover have "1 < q \<Longrightarrow> 100 < q * 100" for q :: real
    by simp
  ultimately have "100 < real (0 + k * chunkSize) / real (length fileData) * 100"
    by blast
  then show ?thesis using ne by (simp only: k(1) simp_thms)
qed

text \<open>A file of one byte: the only report is 1638400, and it is what the state keeps.\<close>

lemma demo_send_one:
  "sendChunks demo_platform demo_key demo_ivs 0 [0x41] 0
     = ([([0, 1, 2, 3, 4, 5, 6, 7, 8, 9, 10, 11, 0x42, 0x5A], 1638400)], True)"
  by (simp add: sendChunks.simps frame_chunk_eq encrypt_def demo_key_def demo_platform_def
      demo_iv0 slice_bytes_def chunkSize_def)

theorem sender_progress_overshoots_witness:
  "snd (sendChunks demo_platform demo_key demo_ivs 0 (f_content one_byte_file) 0)
   \<and> f_content one_byte_file \<noteq> []
   \<and> \<not> chunkSize dvd length (f_content one_byte_file)
   \<and> map snd (fst (sendChunks demo_platform demo_key demo_ivs 0 (f_content one_byte_file) 0))
       = [1638400]
   \<and> 100 < snd (last (fst (sendChunks demo_platform demo_key demo_ivs 0 (f_content one_byte_file) 0)))
   \<and> transferProgress (sendFile demo_platform (Some one_byte_file) alice_ready) = 1638400"
proof -
  have c: "f_content one_byte_file = [0x41]" by (simp add: one_byte_file_def)
  have h: "snd (sendChunks demo_platform demo_key demo_ivs 0 (f_content one_byte_file) 0)"
      "f_content one_byte_file \<noteq> []" "\<not> chunkSize dvd length (f_content one_byte_file)"
    by (simp_all add: c demo_send_one chunkSize_def)
  have p: "transferProgress (sendFile demo_platform (Some one_byte_file) alice_ready) = 1638400"
    using sendFile_ready [OF alice_ready_facts(1) _ alice_ready_facts(2,3), of one_byte_file]
    by (simp add: alice_ready_facts c demo_send_one)
  show ?thesis
    using sender_progress_overshoots [OF h] h p by (simp add: c demo_send_one)
qed

section \<open>Closing\<close>












end
